theory Spec2Isabelle
  imports Main
begin

section \<open>Data model\<close>

text \<open>
  \<open>IDirectoryItem\<close> is the object a directory listing produces. An
  \<open>INavigatorDirectoryItem\<close> adds the optional field \<open>childItems\<close>, a
  promise of the item's own listing. The Navigator only ever stores
  \<open>Promise.resolve(list)\<close> in that field, so the field is either undefined
  (\<open>None\<close>) or a resolved list (\<open>Some\<close>).

  Item objects are shared: the array held in \<open>currentDirectoryItems\<close> is the
  array stored in \<open>parentDirectoryItems\<close> by \<open>toChild\<close>, and the background
  listings write \<open>childItems\<close> into the objects themselves. Items therefore live
  in a heap (a list, an address is an index) and arrays are lists of addresses.
\<close>

record IDirectoryItem =
  name :: string
  path :: string
  isDirectory :: bool
  isHidden :: bool

record INavigatorDirectoryItem = IDirectoryItem +
  childItems :: "nat list option"

datatype error =
    LoggedError string "error option"
  | DirectoryError string string "string option"
  | TypeError

datatype ClipboardAction = Copy | Cut

text \<open>What \<open>await this.parentDirectoryPath\<close> yields: the field is undefined, or a
  promise resolved with \<open>null\<close> or with a string.\<close>

datatype awaited_path = Undefined | Null | Resolved string

datatype dm_call =
    ListDirectory string
  | Exists string
  | CopyItems "IDirectoryItem list" string
  | MoveItems "IDirectoryItem list" string

text \<open>
  The collaborators injected into the Navigator and the DirectoryList: the
  \<open>IDirectoryManager\<close> interface (with the fixed \<open>retrieveOptions\<close> applied) and
  Node's \<open>path.dirname\<close>. A listing either rejects with an error or yields fresh
  items. The file system is not edited from outside while the navigator runs: a path
  gets the same answer each time it is asked for.
\<close>

record World =
  listDirectory :: "string \<Rightarrow> error + IDirectoryItem list"
  exists :: "string \<Rightarrow> bool"
  copyItems :: "IDirectoryItem list \<Rightarrow> string \<Rightarrow> error + unit"
  moveItems :: "IDirectoryItem list \<Rightarrow> string \<Rightarrow> error + unit"
  dirname :: "string \<Rightarrow> string"

text \<open>
  Directory Store requests that have been issued and not yet answered, each with
  the continuation the source attaches to it:
  \<^item> \<open>InitialList p\<close>: the constructor's \<open>retrieveDirectoryItems()\<close>, waiting for
    \<open>listDirectory(p)\<close>;
  \<^item> \<open>ResolveParent p\<close>: the constructor's \<open>retrieveParentDirectoryPath(p)\<close>,
    waiting for \<open>exists(dirname p)\<close>;
  \<^item> \<open>ListParent p\<close>: \<open>listDirectory(parentPath).then(...)\<close>;
  \<^item> \<open>ListGrandChildren a\<close>: the listing \<open>retrieveGrandChildren\<close> started for the
    item at address \<open>a\<close>.
\<close>

datatype task =
    InitialList string
  | ResolveParent string
  | ListParent string
  | ListGrandChildren nat

text \<open>
  The navigator's four fields, followed by what surrounds them at run time: the heap
  of item objects, the requests not yet answered, the Directory Store calls issued so
  far (in order), the lines written by \<open>log.warn\<close>, and the rejections no handler
  caught. \<open>currentPath\<close> is \<open>None\<close> when the field holds \<open>undefined\<close>, which
  \<open>toParent\<close> can store there.
\<close>

record Navigator =
  currentPath :: "string option"
  currentDirectoryItems :: "nat list option"
  parentDirectoryPath :: awaited_path
  parentDirectoryItems :: "nat list option"
  heap :: "INavigatorDirectoryItem list"
  pending :: "task list"
  calls :: "dm_call list"
  warnings :: "string list"
  unhandled :: "error list"

section \<open>Navigator\<close>

definition show_path :: "string option \<Rightarrow> string" where
  "show_path p = (case p of None \<Rightarrow> ''undefined'' | Some s \<Rightarrow> s)"

definition mk_item :: "IDirectoryItem \<Rightarrow> INavigatorDirectoryItem" where
  "mk_item i = \<lparr>name = name i, path = path i, isDirectory = isDirectory i,
     isHidden = isHidden i, childItems = None\<rparr>"

text \<open>A listing's result enters the heap as fresh objects without \<open>childItems\<close>.\<close>

definition alloc :: "IDirectoryItem list \<Rightarrow> INavigatorDirectoryItem list
    \<Rightarrow> nat list \<times> INavigatorDirectoryItem list" where
  "alloc items h = ([length h ..< length h + length items], h @ map mk_item items)"

text \<open>\<open>retrieveGrandChildren\<close>: the \<open>forEach\<close> loop. For every directory item a
  listing is requested at once; its continuation stays pending.\<close>

fun retrieveGrandChildren :: "nat list \<Rightarrow> Navigator \<Rightarrow> Navigator" where
  "retrieveGrandChildren [] s = s"
| "retrieveGrandChildren (a # as) s =
     retrieveGrandChildren as
       (if isDirectory (heap s ! a)
        then s\<lparr>calls := calls s @ [ListDirectory (path (heap s ! a))],
               pending := pending s @ [ListGrandChildren a]\<rparr>
        else s)"

text \<open>The continuation of \<open>retrieveParentDirectoryPath(basePath).then(...)\<close>, run
  when \<open>exists\<close> has answered. \<open>parentPath && ...\<close> skips \<open>null\<close> and the empty
  string.\<close>

definition parentPathResolved :: "World \<Rightarrow> string \<Rightarrow> Navigator \<Rightarrow> Navigator" where
  "parentPathResolved w basePath s =
     (let possibleParentPath = dirname w basePath in
      if exists w possibleParentPath
      then (if possibleParentPath = []
            then s\<lparr>parentDirectoryPath := Resolved possibleParentPath\<rparr>
            else s\<lparr>parentDirectoryPath := Resolved possibleParentPath,
                   calls := calls s @ [ListDirectory possibleParentPath],
                   pending := pending s @ [ListParent possibleParentPath]\<rparr>)
      else s\<lparr>parentDirectoryPath := Null\<rparr>)"

text \<open>The constructor: both requests are issued, neither has been answered.\<close>

definition Navigator_new :: "World \<Rightarrow> string \<Rightarrow> Navigator" where
  "Navigator_new w initialPath =
     \<lparr>currentPath = Some initialPath, currentDirectoryItems = None,
      parentDirectoryPath = Undefined, parentDirectoryItems = None,
      heap = [], pending = [InitialList initialPath, ResolveParent initialPath],
      calls = [ListDirectory initialPath, Exists (dirname w initialPath)],
      warnings = [], unhandled = []\<rparr>"

text \<open>The answer to a pending request arrives and its continuation runs.\<close>

fun complete :: "World \<Rightarrow> task \<Rightarrow> Navigator \<Rightarrow> Navigator" where
  "complete w (ListGrandChildren a) s =
     (case listDirectory w (path (heap s ! a)) of
        Inl e \<Rightarrow> s\<lparr>warnings := warnings s @
                 [''Could not retrieve grand children for '' @ path (heap s ! a)]\<rparr>
      | Inr grandChildItems \<Rightarrow>
          (let (addrs, h) = alloc grandChildItems (heap s)
           in s\<lparr>heap := h[a := (h ! a)\<lparr>childItems := Some addrs\<rparr>]\<rparr>))"
| "complete w (ListParent p) s =
     (case listDirectory w p of
        Inl e \<Rightarrow> s\<lparr>unhandled := unhandled s @ [e]\<rparr>
      | Inr items \<Rightarrow>
          (let (addrs, h) = alloc items (heap s)
           in retrieveGrandChildren addrs
                (s\<lparr>heap := h, parentDirectoryItems := Some addrs\<rparr>)))"
| "complete w (ResolveParent p) s = parentPathResolved w p s"
| "complete w (InitialList p) s =
     (case listDirectory w p of
        Inl e \<Rightarrow> s\<lparr>unhandled := unhandled s @
                 [LoggedError (''Could not retrieve directory items for '' @
                    show_path (currentPath s)) (Some e)]\<rparr>
      | Inr items \<Rightarrow>
          (let (addrs, h) = alloc items (heap s);
               s1 = retrieveGrandChildren addrs
                      (s\<lparr>heap := h, currentDirectoryItems := Some addrs\<rparr>);
               s2 = retrieveGrandChildren addrs s1
           in s2\<lparr>currentDirectoryItems := Some addrs\<rparr>))"

text \<open>While a navigation waits for the Directory Store, pending requests may be
  answered in any order; the schedule names them by position.\<close>

fun run_tasks :: "World \<Rightarrow> nat list \<Rightarrow> Navigator \<Rightarrow> Navigator" where
  "run_tasks w [] s = s"
| "run_tasks w (i # sched) s =
     run_tasks w sched
       (if i < length (pending s)
        then complete w (pending s ! i)
               (s\<lparr>pending := take i (pending s) @ drop (Suc i) (pending s)\<rparr>)
        else s)"

text \<open>
  The navigation operations. An \<open>await\<close> of a field that holds a settled promise
  (or \<open>undefined\<close>) only yields to the microtask queue: no answer of the Directory
  Store can arrive there, and the operation goes on with the value. Where an operation
  awaits the Directory Store itself (\<open>exists\<close> in \<open>toParent\<close>; \<open>listDirectory\<close>,
  then \<open>exists\<close>, in \<open>toDirectory\<close>), the pending requests named by a schedule are
  answered before it goes on. A throw inside an \<open>async\<close> function is the result
  \<open>Inl\<close>; the navigator keeps the assignments made before it. \<open>toDirectory\<close> hands
  its first schedule to \<open>toParent\<close> when it delegates.
\<close>

definition toParent :: "World \<Rightarrow> nat list \<Rightarrow> Navigator \<Rightarrow> (error + unit) \<times> Navigator" where
  "toParent w sched s =
     (if parentDirectoryPath s = Null
      then (Inl (LoggedError (''Could not navigate to parent from '' @
                   show_path (currentPath s)) None), s)
      else
        (let s1 = s\<lparr>currentPath :=
                      (case parentDirectoryPath s of Resolved p \<Rightarrow> Some p | _ \<Rightarrow> None)\<rparr>;
             s2 = s1\<lparr>currentDirectoryItems := parentDirectoryItems s1\<rparr>
         in case currentDirectoryItems s2 of
              None \<Rightarrow> (Inl TypeError, s2)
            | Some items \<Rightarrow>
                (let s3 = retrieveGrandChildren items s2
                 in case currentPath s3 of
                      None \<Rightarrow> (Inl TypeError, s3)
                    | Some p \<Rightarrow>
                        (let s4 = s3\<lparr>calls := calls s3 @ [Exists (dirname w p)]\<rparr>;
                             s5 = run_tasks w sched s4
                         in (Inr (), parentPathResolved w p s5)))))"

definition toChild :: "string \<Rightarrow> Navigator \<Rightarrow> (error + unit) \<times> Navigator" where
  "toChild folderPath s =
     (case currentDirectoryItems s of
        None \<Rightarrow> (Inr (), s)
      | Some items \<Rightarrow>
          (case find (\<lambda>a. path (heap s ! a) = folderPath) items of
             None \<Rightarrow> (Inl TypeError, s)
           | Some childItem \<Rightarrow>
               (case childItems (heap s ! childItem) of
                  None \<Rightarrow>
                    (Inl (LoggedError (''Child items for '' @ path (heap s ! childItem) @
                            '' have not begun retrieval'') None), s)
                | Some grandChildItems \<Rightarrow>
                    (let s1 = s\<lparr>parentDirectoryPath :=
                                  (case currentPath s of None \<Rightarrow> Undefined
                                   | Some p \<Rightarrow> Resolved p)\<rparr>;
                         s2 = s1\<lparr>currentPath := Some (path (heap s1 ! childItem))\<rparr>;
                         s3 = s2\<lparr>parentDirectoryItems := currentDirectoryItems s2\<rparr>;
                         s4 = s3\<lparr>currentDirectoryItems := Some grandChildItems\<rparr>
                     in (Inr (), retrieveGrandChildren grandChildItems s4)))))"

definition toDirectory ::
    "World \<Rightarrow> nat list \<Rightarrow> nat list \<Rightarrow> string \<Rightarrow> Navigator \<Rightarrow> (error + unit) \<times> Navigator" where
  "toDirectory w sched1 sched2 folderPath s =
     (if parentDirectoryPath s = Resolved folderPath then toParent w sched1 s
      else
        (case (case currentDirectoryItems s of None \<Rightarrow> None
               | Some items \<Rightarrow> find (\<lambda>a. path (heap s ! a) = folderPath) items) of
           Some potentialChild \<Rightarrow> toChild (path (heap s ! potentialChild)) s
         | None \<Rightarrow>
             (let s1 = s\<lparr>currentPath := Some folderPath,
                         calls := calls s @ [ListDirectory folderPath]\<rparr>;
                  s2 = run_tasks w sched1 s1
              in case listDirectory w folderPath of
                   Inl e \<Rightarrow> (Inl e, s2)
                 | Inr items \<Rightarrow>
                     (let (addrs, h) = alloc items (heap s2);
                          s3 = s2\<lparr>heap := h, currentDirectoryItems := Some addrs\<rparr>;
                          s4 = retrieveGrandChildren addrs s3
                      in case currentPath s4 of
                           None \<Rightarrow>
                             (Inl (LoggedError (''Could not determine parent path for '' @
                                     show_path (currentPath s4)) (Some TypeError)), s4)
                         | Some p \<Rightarrow>
                             (let s5 = s4\<lparr>calls := calls s4 @ [Exists (dirname w p)]\<rparr>;
                                  s6 = run_tasks w sched2 s5
                              in (Inr (), parentPathResolved w p s6))))))"

section \<open>DirectoryManager\<close>

text \<open>
  The manager sits on Node's \<open>fs\<close>, \<open>ncp\<close> and \<open>path\<close>. Those primitives are
  parameters: each takes the file system and returns whether it succeeded together
  with the file system it leaves. \<open>Utils.parseItemType\<close> is a parameter as well.
  Every primitive call is recorded in \<open>ops\<close>. \<open>watchers\<close> holds the \<open>FSWatcher\<close>
  objects created so far (the watched path, and whether it is still open);
  \<open>watcher\<close> is the manager's field.
\<close>

datatype ItemType = File | Folder

datatype fs_op =
    Rmdir string
  | Unlink string
  | Ncp string string
  | Watch string
  | Close nat

record 'fs NodeFs =
  rmdirAsync :: "string \<Rightarrow> 'fs \<Rightarrow> bool \<times> 'fs"
  unlinkAsync :: "string \<Rightarrow> 'fs \<Rightarrow> bool \<times> 'fs"
  copyFileAsync :: "string \<Rightarrow> string \<Rightarrow> 'fs \<Rightarrow> bool \<times> 'fs"
  fs_watch :: "string \<Rightarrow> 'fs \<Rightarrow> bool"
  basename :: "string \<Rightarrow> string"
  join :: "string \<Rightarrow> string \<Rightarrow> string"
  parseItemType :: "IDirectoryItem \<Rightarrow> ItemType"

record 'fs DirectoryManager =
  fs :: 'fs
  ops :: "fs_op list"
  watchers :: "(string \<times> bool) list"
  watcher :: "nat option"

definition deleteItem ::
    "'fs NodeFs \<Rightarrow> string \<Rightarrow> ItemType \<Rightarrow> 'fs DirectoryManager
      \<Rightarrow> (error + unit) \<times> 'fs DirectoryManager" where
  "deleteItem n itemPath itemType m =
     (if itemType = Folder
      then (let (ok, f) = rmdirAsync n itemPath (fs m);
                m1 = m\<lparr>fs := f, ops := ops m @ [Rmdir itemPath]\<rparr>
            in if ok then (Inr (), m1)
               else (Inl (DirectoryError ''Cannot remove folder'' itemPath None), m1))
      else (let (ok, f) = unlinkAsync n itemPath (fs m);
                m1 = m\<lparr>fs := f, ops := ops m @ [Unlink itemPath]\<rparr>
            in if ok then (Inr (), m1)
               else (Inl (DirectoryError ''Cannot remove file'' itemPath None), m1)))"

definition copyItem ::
    "'fs NodeFs \<Rightarrow> string \<Rightarrow> string \<Rightarrow> 'fs DirectoryManager
      \<Rightarrow> (error + unit) \<times> 'fs DirectoryManager" where
  "copyItem n itemPath destinationDirectory m =
     (let fileName = basename n itemPath;
          destinationFileName = join n destinationDirectory fileName;
          (ok, f) = copyFileAsync n itemPath destinationFileName (fs m);
          m1 = m\<lparr>fs := f, ops := ops m @ [Ncp itemPath destinationFileName]\<rparr>
      in if ok then (Inr (), m1)
         else (Inl (DirectoryError ''Failed to copy item'' itemPath
                      (Some destinationFileName)), m1))"

text \<open>\<open>moveItem\<close>: one \<open>try\<close> around both awaits; whatever is thrown inside is
  replaced by the same \<open>DirectoryError\<close>.\<close>

definition moveItem ::
    "'fs NodeFs \<Rightarrow> string \<Rightarrow> string \<Rightarrow> ItemType \<Rightarrow> 'fs DirectoryManager
      \<Rightarrow> (error + unit) \<times> 'fs DirectoryManager" where
  "moveItem n itemPath destinationDirectory itemType m =
     (case copyItem n itemPath destinationDirectory m of
        (Inl e, m1) \<Rightarrow>
          (Inl (DirectoryError ''Failed to copy item'' itemPath
                  (Some destinationDirectory)), m1)
      | (Inr u, m1) \<Rightarrow>
          (case deleteItem n itemPath itemType m1 of
             (Inl e, m2) \<Rightarrow>
               (Inl (DirectoryError ''Failed to copy item'' itemPath
                       (Some destinationDirectory)), m2)
           | (Inr v, m2) \<Rightarrow> (Inr (), m2)))"

text \<open>
  \<open>itemsToDelete.map(async item => ...)\<close>: every deletion is started, in the order
  of the array, and each settles as fulfilled (\<open>Inr\<close>) or rejected (\<open>Inl\<close>).
\<close>

fun itemDeletions ::
    "'fs NodeFs \<Rightarrow> IDirectoryItem list \<Rightarrow> 'fs DirectoryManager
      \<Rightarrow> (error + unit) list \<times> 'fs DirectoryManager" where
  "itemDeletions n [] m = ([], m)"
| "itemDeletions n (item # items) m =
     (let (r, m1) = deleteItem n (path item) (parseItemType n item) m;
          (rs, m2) = itemDeletions n items m1
      in (r # rs, m2))"

text \<open>
  \<open>Promise.all\<close> rejects with the reason of the promise that rejects first in
  time and fulfils when none rejects. \<open>rank i\<close> is the time at which promise \<open>i\<close>
  settles; among equal times the lower index counts as earlier.
\<close>

fun first_rejection ::
    "(nat \<Rightarrow> nat) \<Rightarrow> nat \<Rightarrow> (error + unit) list \<Rightarrow> (nat \<times> error) option
      \<Rightarrow> (nat \<times> error) option" where
  "first_rejection rank i [] best = best"
| "first_rejection rank i (r # rs) best =
     first_rejection rank (Suc i) rs
       (case r of
          Inr u \<Rightarrow> best
        | Inl e \<Rightarrow>
            (case best of
               None \<Rightarrow> Some (rank i, e)
             | Some (t, e') \<Rightarrow> if rank i < t then Some (rank i, e) else best))"

definition Promise_all :: "(nat \<Rightarrow> nat) \<Rightarrow> (error + unit) list \<Rightarrow> error + unit" where
  "Promise_all rank rs =
     (case first_rejection rank 0 rs None of None \<Rightarrow> Inr () | Some (t, e) \<Rightarrow> Inl e)"

definition deleteItems ::
    "'fs NodeFs \<Rightarrow> (nat \<Rightarrow> nat) \<Rightarrow> IDirectoryItem list \<Rightarrow> 'fs DirectoryManager
      \<Rightarrow> (error + unit) \<times> 'fs DirectoryManager" where
  "deleteItems n rank itemsToDelete m =
     (let (rs, m1) = itemDeletions n itemsToDelete m in (Promise_all rank rs, m1))"

text \<open>\<open>startWatching\<close> overwrites the field with the new watcher; \<open>fs.watch\<close> may
  throw, and then the field keeps its value. The boolean is whether it returned.\<close>

definition startWatching ::
    "'fs NodeFs \<Rightarrow> string \<Rightarrow> 'fs DirectoryManager \<Rightarrow> bool \<times> 'fs DirectoryManager" where
  "startWatching n pathToWatch m =
     (if fs_watch n pathToWatch (fs m)
      then (True, m\<lparr>ops := ops m @ [Watch pathToWatch],
                     watchers := watchers m @ [(pathToWatch, True)],
                     watcher := Some (length (watchers m))\<rparr>)
      else (False, m\<lparr>ops := ops m @ [Watch pathToWatch]\<rparr>))"

definition stopWatching :: "'fs DirectoryManager \<Rightarrow> 'fs DirectoryManager" where
  "stopWatching m =
     (case watcher m of
        None \<Rightarrow> m
      | Some h \<Rightarrow> m\<lparr>ops := ops m @ [Close h],
                     watchers := (watchers m)[h := (fst (watchers m ! h), False)]\<rparr>)"

definition live_watchers :: "'fs DirectoryManager \<Rightarrow> string list" where
  "live_watchers m = map fst (filter snd (watchers m))"

definition close_calls :: "'fs DirectoryManager \<Rightarrow> nat list" where
  "close_calls m = concat (map (\<lambda>c. case c of Close h \<Rightarrow> [h] | _ \<Rightarrow> []) (ops m))"

section \<open>DirectoryList\<close>

text \<open>The component's use of the watcher: \<open>componentDidMount\<close>,
  \<open>componentDidUpdate\<close> (with its early return) and \<open>componentWillUnmount\<close>.\<close>

definition componentDidMount_watch ::
    "'fs NodeFs \<Rightarrow> string \<Rightarrow> 'fs DirectoryManager
      \<Rightarrow> (error + unit) \<times> 'fs DirectoryManager" where
  "componentDidMount_watch n newPath m =
     (let (ok, m1) = startWatching n newPath m
      in if ok then (Inr (), m1)
         else (Inl (DirectoryError ''Could not set watcher'' newPath None), m1))"

definition componentDidUpdate_watch ::
    "'fs NodeFs \<Rightarrow> string \<Rightarrow> string \<Rightarrow> bool \<Rightarrow> bool \<Rightarrow> bool \<Rightarrow> 'fs DirectoryManager
      \<Rightarrow> (error + unit) \<times> 'fs DirectoryManager" where
  "componentDidUpdate_watch n prevPath newPath creatingNewItem renamingItem
       itemDeleted m =
     (if prevPath = newPath \<and> \<not> creatingNewItem \<and> \<not> renamingItem \<and> \<not> itemDeleted
      then (Inr (), m)
      else if prevPath \<noteq> newPath
      then (let (ok, m1) = startWatching n newPath m
            in if ok then (Inr (), m1)
               else (Inl (DirectoryError ''Could not set watcher'' newPath None), m1))
      else (Inr (), m))"

definition componentWillUnmount :: "'fs DirectoryManager \<Rightarrow> 'fs DirectoryManager" where
  "componentWillUnmount m = stopWatching m"

text \<open>The part of the component that \<open>pasteFromClipboard\<close> reads and writes. The
  clipboard's action and items come from the component's model object.\<close>

record DirectoryList =
  props_path :: string
  directoryItems :: "IDirectoryItem list"
  notified :: "string list"
  store_calls :: "dm_call list"

definition pasteFromClipboard ::
    "World \<Rightarrow> ClipboardAction option \<Rightarrow> IDirectoryItem list option \<Rightarrow> DirectoryList
      \<Rightarrow> (error + unit) \<times> DirectoryList" where
  "pasteFromClipboard w clipboardAction clipboardItems c =
     (if clipboardAction = Some Copy
      then (case clipboardItems of
              None \<Rightarrow> (Inl (LoggedError ''Clipboard items is undefined'' None), c)
            | Some items \<Rightarrow>
                (let c1 = c\<lparr>store_calls := store_calls c @ [CopyItems items (props_path c)]\<rparr>
                 in case copyItems w items (props_path c) of
                      Inl e \<Rightarrow> (Inl e, c1)
                    | Inr u \<Rightarrow>
                        (let c2 = c1\<lparr>store_calls :=
                                       store_calls c1 @ [ListDirectory (props_path c1)]\<rparr>
                         in case listDirectory w (props_path c2) of
                              Inl e \<Rightarrow> (Inl e, c2)
                            | Inr l \<Rightarrow>
                                (Inr (), c2\<lparr>directoryItems := l,
                                            notified := notified c2 @ [''Copied items'']\<rparr>))))
      else if clipboardAction = Some Cut
      then (case clipboardItems of
              None \<Rightarrow> (Inl (LoggedError ''Clipboard items is undefined'' None), c)
            | Some items \<Rightarrow>
                (let c1 = c\<lparr>store_calls := store_calls c @ [MoveItems items (props_path c)]\<rparr>
                 in case moveItems w items (props_path c) of
                      Inl e \<Rightarrow> (Inl e, c1)
                    | Inr u \<Rightarrow>
                        (let c2 = c1\<lparr>store_calls :=
                                       store_calls c1 @ [ListDirectory (props_path c1)]\<rparr>
                         in case listDirectory w (props_path c2) of
                              Inl e \<Rightarrow> (Inl e, c2)
                            | Inr l \<Rightarrow>
                                (Inr (), c2\<lparr>directoryItems := l,
                                            notified := notified c2 @ [''Cut items'']\<rparr>))))
      else (Inr (), c))"

text \<open>\<open>navigateToPath\<close>: a path equal to the one shown is not sent up. The result
  is the path handed to \<open>sendPathUp\<close>, if any.\<close>

definition navigateToPath :: "DirectoryList \<Rightarrow> string \<Rightarrow> string option" where
  "navigateToPath c filePath =
     (if filePath \<noteq> props_path c then Some filePath else None)"

section \<open>A small file system for the examples\<close>

definition example_item :: "string \<Rightarrow> string \<Rightarrow> bool \<Rightarrow> IDirectoryItem" where
  "example_item n p d = \<lparr>name = n, path = p, isDirectory = d, isHidden = False\<rparr>"

text \<open>\<open>/\<close> holds the directories \<open>a\<close> and \<open>p\<close>; \<open>/a\<close> holds the directory \<open>b\<close>
  and the file \<open>c\<close>; \<open>/a/b\<close> holds the file \<open>d\<close>; \<open>/p\<close> cannot be listed.
  \<open>dirname\<close> of the root is the root, as in Node.\<close>

definition example_world :: World where
  "example_world =
     \<lparr>listDirectory = (\<lambda>p.
        if p = ''/'' then Inr [example_item ''a'' ''/a'' True,
                               example_item ''p'' ''/p'' True]
        else if p = ''/a'' then Inr [example_item ''b'' ''/a/b'' True,
                                     example_item ''c'' ''/a/c'' False]
        else if p = ''/a/b'' then Inr [example_item ''d'' ''/a/b/d'' False]
        else if p = ''/p'' then Inl (DirectoryError ''Could not list items in directory'' p None)
        else Inl (DirectoryError ''Cannot call listDirectory on a non-directory item'' p None)),
      exists = (\<lambda>p. p = ''/'' \<or> p = ''/a'' \<or> p = ''/a/b'' \<or> p = ''/p''),
      copyItems = (\<lambda>items d. Inr ()),
      moveItems = (\<lambda>items d. Inr ()),
      dirname = (\<lambda>p. if p = ''/a/b'' then ''/a'' else ''/'')\<rparr>"

text \<open>
  A file system for the examples: the entries that exist, each a path and whether it
  is a directory. \<open>example_parent\<close> is the path of the directory an entry lies in.
  \<^item> \<open>rmdir\<close> succeeds on a directory that exists and holds no entry;
  \<^item> \<open>unlink\<close> succeeds on a file that exists;
  \<^item> the copy succeeds when the source exists and the directory the destination lies
    in exists; it copies the source and whatever lies below it, replacing what is
    already there.
  A primitive that fails leaves the file system as it was.
\<close>

definition example_parent :: "string \<Rightarrow> string" where
  "example_parent p = rev (drop 1 (dropWhile (\<lambda>c. c \<noteq> CHR ''/'') (rev p)))"

definition example_below :: "string \<Rightarrow> string \<Rightarrow> bool" where
  "example_below p x = (x = p \<or> take (length p + 1) x = p @ ''/'')"

definition example_copy ::
    "string \<Rightarrow> string \<Rightarrow> (string \<times> bool) list \<Rightarrow> bool \<times> (string \<times> bool) list" where
  "example_copy p q f =
     (if p \<in> set (map fst f) \<and> (example_parent q, True) \<in> set f
      then (let copies = map (\<lambda>(x, d). (q @ drop (length p) x, d))
                           (filter (\<lambda>(x, d). example_below p x) f)
            in (True, filter (\<lambda>(x, d). x \<notin> set (map fst copies)) f @ copies))
      else (False, f))"

definition example_fs :: "(string \<times> bool) list NodeFs" where
  "example_fs =
     \<lparr>rmdirAsync = (\<lambda>p f.
        if (p, True) \<in> set f \<and> filter (\<lambda>(x, d). example_parent x = p) f = []
        then (True, removeAll (p, True) f) else (False, f)),
      unlinkAsync = (\<lambda>p f.
        if (p, False) \<in> set f then (True, removeAll (p, False) f) else (False, f)),
      copyFileAsync = example_copy,
      fs_watch = (\<lambda>p f. True),
      basename = (\<lambda>p. rev (takeWhile (\<lambda>c. c \<noteq> CHR ''/'') (rev p))),
      join = (\<lambda>d f. d @ ''/'' @ f),
      parseItemType = (\<lambda>i. if isDirectory i then Folder else File)\<rparr>"

definition example_manager ::
    "(string \<times> bool) list \<Rightarrow> (string \<times> bool) list DirectoryManager" where
  "example_manager f = \<lparr>fs = f, ops = [], watchers = [], watcher = None\<rparr>"

text \<open>Navigators reached from the constructor in \<open>example_world\<close>:
  \<^item> \<open>example_listed\<close>: at \<open>/a\<close>, the first listing has arrived, nothing else;
  \<^item> \<open>example_primed\<close>: at \<open>/a\<close>, every request has been answered;
  \<^item> \<open>example_root_listed\<close>: at \<open>/\<close>, the first listing has arrived;
  \<^item> \<open>example_root\<close>: at \<open>/\<close>, every request has been answered;
  \<^item> \<open>example_parent_unlisted\<close>: at \<open>/a/b\<close>, the first listing and \<open>exists\<close>
    have been answered, the listing of the parent has not.\<close>

definition example_listed :: Navigator where
  "example_listed = run_tasks example_world [0] (Navigator_new example_world ''/a'')"

definition example_primed :: Navigator where
  "example_primed =
     run_tasks example_world [0, 0, 0, 0, 0, 0, 0] (Navigator_new example_world ''/a'')"

definition example_root_listed :: Navigator where
  "example_root_listed = run_tasks example_world [0] (Navigator_new example_world ''/'')"

definition example_root :: Navigator where
  "example_root =
     run_tasks example_world [0, 0, 0, 0, 0, 0, 0, 0, 0, 0]
       (Navigator_new example_world ''/'')"

definition example_parent_unlisted :: Navigator where
  "example_parent_unlisted =
     run_tasks example_world [0, 0] (Navigator_new example_world ''/a/b'')"

text \<open>\<open>example_racing\<close>: constructed on \<open>/a/b\<close> and sent to \<open>/a\<close> before the
  constructor's requests were answered; the listing of \<open>b\<close> has been prefetched.\<close>

definition example_racing :: Navigator where
  "example_racing =
     snd (toDirectory example_world [] [2] ''/a'' (Navigator_new example_world ''/a/b''))"

section \<open>Vocabulary of the statements\<close>

text \<open>The listing data of a heap object, without \<open>childItems\<close>.\<close>

definition item_of :: "INavigatorDirectoryItem \<Rightarrow> IDirectoryItem" where
  "item_of x = \<lparr>name = name x, path = path x, isDirectory = isDirectory x,
     isHidden = isHidden x\<rparr>"

definition directories :: "INavigatorDirectoryItem list \<Rightarrow> nat list \<Rightarrow> nat list" where
  "directories h as = filter (\<lambda>a. isDirectory (h ! a)) as"

text \<open>The listings \<open>retrieveGrandChildren\<close> requests for an array.\<close>

definition listings :: "INavigatorDirectoryItem list \<Rightarrow> nat list \<Rightarrow> dm_call list" where
  "listings h as = map (\<lambda>a. ListDirectory (path (h ! a))) (directories h as)"

text \<open>No request of the constructor's first listing is still unanswered.\<close>

definition no_initial :: "task list \<Rightarrow> bool" where
  "no_initial ts = list_all (\<lambda>t. case t of InitialList p \<Rightarrow> False | _ \<Rightarrow> True) ts"

text \<open>The primitive \<open>deleteItem\<close> invokes for an item.\<close>

definition deletion_op :: "'fs NodeFs \<Rightarrow> IDirectoryItem \<Rightarrow> fs_op" where
  "deletion_op n item =
     (if parseItemType n item = Folder then Rmdir (path item) else Unlink (path item))"

definition deletion_error :: "'fs NodeFs \<Rightarrow> IDirectoryItem \<Rightarrow> error" where
  "deletion_error n item =
     (if parseItemType n item = Folder
      then DirectoryError ''Cannot remove folder'' (path item) None
      else DirectoryError ''Cannot remove file'' (path item) None)"

text \<open>The effect of an item's deletion primitive on the file system, whether it
  succeeds or not.\<close>

definition deletion_effect :: "'fs NodeFs \<Rightarrow> IDirectoryItem \<Rightarrow> 'fs \<Rightarrow> 'fs" where
  "deletion_effect n item f =
     snd (if parseItemType n item = Folder then rmdirAsync n (path item) f
          else unlinkAsync n (path item) f)"

text \<open>Whether an item's deletion primitive succeeds on a file system, and the file
  system on which the deletion of the \<open>i\<close>-th item of a batch runs: the one the
  deletions of the items before it have left.\<close>

definition deletion_succeeds :: "'fs NodeFs \<Rightarrow> IDirectoryItem \<Rightarrow> 'fs \<Rightarrow> bool" where
  "deletion_succeeds n item f =
     fst (if parseItemType n item = Folder then rmdirAsync n (path item) f
          else unlinkAsync n (path item) f)"

definition fs_before :: "'fs NodeFs \<Rightarrow> IDirectoryItem list \<Rightarrow> 'fs \<Rightarrow> nat \<Rightarrow> 'fs" where
  "fs_before n items f i = foldl (\<lambda>g item. deletion_effect n item g) f (take i items)"

text \<open>A batch to delete: the file \<open>/d/1\<close>, the directory \<open>/d/2\<close> and the file
  \<open>/d/3\<close>. In \<open>example_disk\<close> all three exist and \<open>/d/2\<close> is not empty, so only
  its deletion fails; in \<open>example_disk_without_1\<close> the file \<open>/d/1\<close> is gone as well.
  The directory \<open>/e\<close> exists, \<open>/x\<close> does not. And a component showing \<open>/a\<close>.\<close>

definition example_items :: "IDirectoryItem list" where
  "example_items = [example_item ''1'' ''/d/1'' False, example_item ''2'' ''/d/2'' True,
     example_item ''3'' ''/d/3'' False]"

definition example_disk :: "(string \<times> bool) list" where
  "example_disk = [(''/d'', True), (''/d/1'', False), (''/d/2'', True), (''/d/2/x'', False),
     (''/d/3'', False), (''/e'', True)]"

definition example_disk_without_1 :: "(string \<times> bool) list" where
  "example_disk_without_1 = [(''/d'', True), (''/d/2'', True), (''/d/2/x'', False),
     (''/d/3'', False), (''/e'', True)]"

definition example_list :: DirectoryList where
  "example_list = \<lparr>props_path = ''/a'', directoryItems = [], notified = [], store_calls = []\<rparr>"

section \<open>Basic facts about requests and their answers\<close>

lemma retrieveGrandChildren_closed:
  "retrieveGrandChildren as s =
     s\<lparr>calls := calls s @ listings (heap s) as,
       pending := pending s @ map ListGrandChildren (directories (heap s) as)\<rparr>"
  by (induction as arbitrary: s) (simp_all add: listings_def directories_def)

lemma alloc_length: "alloc items h = (addrs, h') \<Longrightarrow> length h' = length h + length items"
  by (auto simp: alloc_def)

lemma alloc_old: "alloc items h = (addrs, h') \<Longrightarrow> a < length h \<Longrightarrow> h' ! a = h ! a"
  by (auto simp: alloc_def nth_append)

lemma alloc_new:
  "alloc items h = (addrs, h') \<Longrightarrow>
     addrs = [length h ..< length h + length items] \<and>
     map (\<lambda>a. item_of (h' ! a)) addrs = items"
  by (auto simp: alloc_def item_of_def mk_item_def nth_append intro!: nth_equalityI)

lemma item_of_childItems [simp]: "item_of (x\<lparr>childItems := c\<rparr>) = item_of x"
  by (simp add: item_of_def)

lemma complete_heap:
  "length (heap s) \<le> length (heap (complete w t s)) \<and>
   (a < length (heap s) \<longrightarrow> item_of (heap (complete w t s) ! a) = item_of (heap s ! a))"
proof (cases t)
  case (ListGrandChildren b)
  then show ?thesis
    by (auto simp: alloc_def nth_append nth_list_update split: sum.splits)
next
  case (ListParent p)
  then show ?thesis
    by (auto simp: alloc_def nth_append retrieveGrandChildren_closed split: sum.splits)
next
  case (ResolveParent p)
  then show ?thesis by (simp add: parentPathResolved_def Let_def)
next
  case (InitialList p)
  then show ?thesis
    by (auto simp: alloc_def nth_append retrieveGrandChildren_closed split: sum.splits)
qed

lemma complete_currentPath: "currentPath (complete w t s) = currentPath s"
  by (cases t) (auto simp: alloc_def retrieveGrandChildren_closed parentPathResolved_def Let_def
      split: sum.splits)

lemma complete_calls: "\<exists>ext. calls (complete w t s) = calls s @ ext"
  by (cases t) (auto simp: alloc_def retrieveGrandChildren_closed parentPathResolved_def Let_def
      split: sum.splits)

lemma no_initial_append [simp]: "no_initial (xs @ ys) = (no_initial xs \<and> no_initial ys)"
  by (simp add: no_initial_def)

lemma no_initial_grand [simp]: "no_initial (map ListGrandChildren as)"
  by (induction as) (simp_all add: no_initial_def)

lemma no_initial_take_drop:
  "no_initial ts \<Longrightarrow> no_initial (take i ts) \<and> no_initial (drop j ts)"
  unfolding no_initial_def list_all_iff
  by (auto dest: in_set_takeD in_set_dropD)

lemma no_initial_nth: "no_initial ts \<Longrightarrow> i < length ts \<Longrightarrow> ts ! i \<noteq> InitialList p"
  unfolding no_initial_def list_all_iff
  by (metis nth_mem task.simps(17))

lemma no_initial_Nil [simp]: "no_initial []"
  by (simp add: no_initial_def)

lemma no_initial_Cons [simp]:
  "no_initial (t # ts) = ((case t of InitialList p \<Rightarrow> False | _ \<Rightarrow> True) \<and> no_initial ts)"
  by (simp add: no_initial_def)

lemma complete_no_initial:
  "(\<And>p. t \<noteq> InitialList p) \<Longrightarrow> no_initial (pending s) \<Longrightarrow>
     currentDirectoryItems (complete w t s) = currentDirectoryItems s \<and>
     no_initial (pending (complete w t s))"
  by (cases t) (auto simp: alloc_def retrieveGrandChildren_closed parentPathResolved_def Let_def
      split: sum.splits)

lemma run_tasks_currentPath: "currentPath (run_tasks w sched s) = currentPath s"
  by (induction sched arbitrary: s) (simp_all add: complete_currentPath)

lemma run_tasks_calls: "\<exists>ext. calls (run_tasks w sched s) = calls s @ ext"
proof (induction sched arbitrary: s)
  case Nil
  then show ?case by simp
next
  case (Cons i sched)
  let ?s1 = "if i < length (pending s)
        then complete w (pending s ! i)
               (s\<lparr>pending := take i (pending s) @ drop (Suc i) (pending s)\<rparr>)
        else s"
  obtain e1 where e1: "calls ?s1 = calls s @ e1"
    using complete_calls [of w "pending s ! i"
        "s\<lparr>pending := take i (pending s) @ drop (Suc i) (pending s)\<rparr>"]
    by (cases "i < length (pending s)") auto
  obtain e2 where "calls (run_tasks w sched ?s1) = calls ?s1 @ e2"
    using Cons.IH [of ?s1] by blast
  with e1 show ?case by simp
qed

lemma run_tasks_heap:
  "length (heap s) \<le> length (heap (run_tasks w sched s)) \<and>
   (a < length (heap s) \<longrightarrow> item_of (heap (run_tasks w sched s) ! a) = item_of (heap s ! a))"
proof (induction sched arbitrary: s)
  case Nil
  then show ?case by simp
next
  case (Cons i sched)
  let ?s0 = "s\<lparr>pending := take i (pending s) @ drop (Suc i) (pending s)\<rparr>"
  let ?s1 = "if i < length (pending s) then complete w (pending s ! i) ?s0 else s"
  have step: "length (heap s) \<le> length (heap ?s1) \<and>
      (a < length (heap s) \<longrightarrow> item_of (heap ?s1 ! a) = item_of (heap s ! a))"
    using complete_heap [of ?s0 w "pending s ! i" a] by simp
  from Cons.IH [of ?s1] step show ?case
    by (simp del: complete.simps)
qed

lemma run_tasks_no_initial:
  "no_initial (pending s) \<Longrightarrow>
     currentDirectoryItems (run_tasks w sched s) = currentDirectoryItems s \<and>
     no_initial (pending (run_tasks w sched s))"
proof (induction sched arbitrary: s)
  case Nil
  then show ?case by simp
next
  case (Cons i sched)
  let ?s0 = "s\<lparr>pending := take i (pending s) @ drop (Suc i) (pending s)\<rparr>"
  let ?s1 = "if i < length (pending s) then complete w (pending s ! i) ?s0 else s"
  have step: "currentDirectoryItems ?s1 = currentDirectoryItems s \<and> no_initial (pending ?s1)"
  proof (cases "i < length (pending s)")
    case True
    have "no_initial (pending ?s0)"
      using no_initial_take_drop [OF Cons.prems] by simp
    moreover have "\<And>p. pending s ! i \<noteq> InitialList p"
      using Cons.prems True by (rule no_initial_nth)
    ultimately show ?thesis
      using complete_no_initial [of "pending s ! i" ?s0 w] True by simp
  next
    case False
    then show ?thesis using Cons.prems by simp
  qed
  from Cons.IH [of ?s1] step show ?case by simp
qed


section \<open>Facts about the navigation operations\<close>

lemma toChild_resolved:
  assumes "currentDirectoryItems s = Some items"
      and "find (\<lambda>a. path (heap s ! a) = childPath) items = Some c"
      and "childItems (heap s ! c) = Some grandChildItems"
  shows "toChild childPath s =
     (Inr (), s\<lparr>currentPath := Some childPath,
                 currentDirectoryItems := Some grandChildItems,
                 parentDirectoryPath :=
                   (case currentPath s of None \<Rightarrow> Undefined | Some p \<Rightarrow> Resolved p),
                 parentDirectoryItems := Some items,
                 calls := calls s @ listings (heap s) grandChildItems,
                 pending := pending s @
                   map ListGrandChildren (directories (heap s) grandChildItems)\<rparr>)"
proof -
  from assms(2) have "path (heap s ! c) = childPath"
    by (auto simp: find_Some_iff)
  with assms show ?thesis
    by (simp add: toChild_def retrieveGrandChildren_closed)
qed

lemma toChild_unresolved:
  assumes "currentDirectoryItems s = Some items"
      and "find (\<lambda>a. path (heap s ! a) = childPath) items = Some c"
      and "childItems (heap s ! c) = None"
  shows "toChild childPath s =
     (Inl (LoggedError (''Child items for '' @ childPath @ '' have not begun retrieval'') None), s)"
proof -
  from assms(2) have "path (heap s ! c) = childPath"
    by (auto simp: find_Some_iff)
  with assms show ?thesis
    by (simp add: toChild_def)
qed

lemma listings_mem:
  "ListDirectory p \<in> set (listings h as) \<Longrightarrow> \<exists>a \<in> set as. path (h ! a) = p"
  by (auto simp: listings_def directories_def)

lemma primed_items: "currentDirectoryItems example_primed = Some [0, 1]"
  by code_simp

lemma primed_find: "find (\<lambda>a. path (heap example_primed ! a) = ''/a/b'') [0, 1] = Some 0"
  by code_simp

lemma primed_child: "childItems (heap example_primed ! 0) = Some [3]"
  by code_simp

lemma parentPathResolved_fields:
  "currentPath (parentPathResolved w b s) = currentPath s \<and>
   currentDirectoryItems (parentPathResolved w b s) = currentDirectoryItems s \<and>
   parentDirectoryItems (parentPathResolved w b s) = parentDirectoryItems s \<and>
   heap (parentPathResolved w b s) = heap s \<and>
   calls (parentPathResolved w b s) =
     calls s @ (if exists w (dirname w b) \<and> dirname w b \<noteq> []
                then [ListDirectory (dirname w b)] else [])"
  by (simp add: parentPathResolved_def Let_def)

lemma toParent_resolved:
  assumes "parentDirectoryPath s = Resolved p"
      and "parentDirectoryItems s = Some items"
  shows "toParent w sched s =
     (Inr (), parentPathResolved w p (run_tasks w sched
        (s\<lparr>currentPath := Some p, currentDirectoryItems := Some items,
            pending := pending s @ map ListGrandChildren (directories (heap s) items),
            calls := calls s @ listings (heap s) items @ [Exists (dirname w p)]\<rparr>)))"
  using assms by (simp add: toParent_def Let_def retrieveGrandChildren_closed)

lemma toParent_outcome: "fst (toParent w sched s) = fst (toParent w [] s)"
  by (simp add: toParent_def Let_def split: option.splits)

lemma toDirectory_outcome:
  "fst (toDirectory w sched1 sched2 p s) = fst (toDirectory w [] [] p s)"
proof -
  have "fst (toParent w sched1 s) = fst (toParent w [] s)"
    by (rule toParent_outcome)
  then show ?thesis
    by (simp add: toDirectory_def Let_def case_prod_beta retrieveGrandChildren_closed
        run_tasks_currentPath split: option.splits sum.splits)
qed

text \<open>The component forwards no path equal to the one it shows.\<close>

lemma navigateToPath_same: "navigateToPath c (props_path c) = None"
  by (simp add: navigateToPath_def)

section \<open>Facts about batch deletion\<close>

lemma itemDeletions_Cons:
  "itemDeletions n (item # items) m =
     (fst (deleteItem n (path item) (parseItemType n item) m) #
        fst (itemDeletions n items (snd (deleteItem n (path item) (parseItemType n item) m))),
      snd (itemDeletions n items (snd (deleteItem n (path item) (parseItemType n item) m))))"
  by (simp add: case_prod_beta Let_def)

lemma deleteItem_fs:
  "fs (snd (deleteItem n (path item) (parseItemType n item) m)) = deletion_effect n item (fs m)"
  by (simp add: deleteItem_def deletion_effect_def case_prod_beta Let_def)

lemma itemDeletions_length: "length (fst (itemDeletions n items m)) = length items"
  by (induction items arbitrary: m)
     (simp_all add: itemDeletions_Cons del: itemDeletions.simps(2))

lemma deleteItem_state:
  "snd (deleteItem n (path item) (parseItemType n item) m) =
     m\<lparr>fs := deletion_effect n item (fs m), ops := ops m @ [deletion_op n item]\<rparr>"
  by (simp add: deleteItem_def deletion_effect_def deletion_op_def case_prod_beta Let_def)

lemma itemDeletions_state:
  "snd (itemDeletions n items m) =
     m\<lparr>fs := foldl (\<lambda>f item. deletion_effect n item f) (fs m) items,
       ops := ops m @ map (deletion_op n) items\<rparr>"
  by (induction items arbitrary: m)
     (simp_all add: itemDeletions_Cons deleteItem_state del: itemDeletions.simps(2))

lemma itemDeletions_nth:
  "i < length items \<Longrightarrow>
     fst (itemDeletions n items m) ! i =
       (if deletion_succeeds n (items ! i) (fs_before n items (fs m) i) then Inr ()
        else Inl (deletion_error n (items ! i)))"
proof (induction items arbitrary: m i)
  case Nil
  then show ?case by simp
next
  case (Cons item items)
  show ?case
  proof (cases i)
    case 0
    then show ?thesis
      by (simp add: itemDeletions_Cons deleteItem_def deletion_succeeds_def fs_before_def
          deletion_error_def case_prod_beta Let_def del: itemDeletions.simps(2))
  next
    case (Suc j)
    with Cons.prems Cons.IH [of j "snd (deleteItem n (path item) (parseItemType n item) m)"]
    show ?thesis
      by (simp add: itemDeletions_Cons deleteItem_fs fs_before_def del: itemDeletions.simps(2))
  qed
qed


lemma first_rejection_earliest:
  "case first_rejection rank i rs best of
      None \<Rightarrow> best = None \<and> (\<forall>j<length rs. \<forall>e. rs ! j \<noteq> Inl e)
    | Some (t, e) \<Rightarrow>
        (best = Some (t, e) \<and> (\<forall>j<length rs. \<forall>e'. rs ! j = Inl e' \<longrightarrow> t \<le> rank (i + j))) \<or>
        (\<exists>k<length rs. rs ! k = Inl e \<and> t = rank (i + k) \<and>
           (\<forall>t0 e0. best = Some (t0, e0) \<longrightarrow> t < t0) \<and>
           (\<forall>j<length rs. \<forall>e'. rs ! j = Inl e' \<longrightarrow>
              rank (i + k) < rank (i + j) \<or> (rank (i + k) = rank (i + j) \<and> k \<le> j)))"
proof (induction rs arbitrary: i best)
  case Nil
  then show ?case by (simp split: option.splits)
next
  case (Cons r rs)
  let ?b = "case r of Inr u \<Rightarrow> best
        | Inl e \<Rightarrow> (case best of None \<Rightarrow> Some (rank i, e)
             | Some (t, e') \<Rightarrow> if rank i < t then Some (rank i, e) else best)"
  have step: "first_rejection rank i (r # rs) best = first_rejection rank (Suc i) rs ?b"
    by simp
  show ?case
  proof (cases "first_rejection rank (Suc i) rs ?b")
    case None
    with Cons.IH [where i = "Suc i" and best = ?b] have b: "?b = None" and n: "\<forall>j<length rs. \<forall>e. rs ! j \<noteq> Inl e"
      by simp_all
    from b have "best = None" and "\<forall>e. r \<noteq> Inl e"
      by (auto split: sum.splits option.splits if_splits)
    with n None step show ?thesis
      by (simp add: All_less_Suc2 del: first_rejection.simps)
  next
    case (Some te)
    obtain t e where te: "te = (t, e)" by (cases te)
    from Cons.IH [where i = "Suc i" and best = ?b] Some te
    have ih: "(?b = Some (t, e) \<and> (\<forall>j<length rs. \<forall>e'. rs ! j = Inl e' \<longrightarrow> t \<le> rank (Suc i + j))) \<or>
        (\<exists>k<length rs. rs ! k = Inl e \<and> t = rank (Suc i + k) \<and>
           (\<forall>t0 e0. ?b = Some (t0, e0) \<longrightarrow> t < t0) \<and>
           (\<forall>j<length rs. \<forall>e'. rs ! j = Inl e' \<longrightarrow>
              rank (Suc i + k) < rank (Suc i + j) \<or> (rank (Suc i + k) = rank (Suc i + j) \<and> k \<le> j)))"
      by simp
    have goal: "(best = Some (t, e) \<and>
          (\<forall>j<length (r # rs). \<forall>e'. (r # rs) ! j = Inl e' \<longrightarrow> t \<le> rank (i + j))) \<or>
        (\<exists>k<length (r # rs). (r # rs) ! k = Inl e \<and> t = rank (i + k) \<and>
           (\<forall>t0 e0. best = Some (t0, e0) \<longrightarrow> t < t0) \<and>
           (\<forall>j<length (r # rs). \<forall>e'. (r # rs) ! j = Inl e' \<longrightarrow>
              rank (i + k) < rank (i + j) \<or> (rank (i + k) = rank (i + j) \<and> k \<le> j)))"
      using ih
    proof (elim disjE conjE exE)
      assume b: "?b = Some (t, e)"
        and m: "\<forall>j<length rs. \<forall>e'. rs ! j = Inl e' \<longrightarrow> t \<le> rank (Suc i + j)"
      show ?thesis
      proof (cases r)
        case (Inr u)
        with b m show ?thesis
          by (intro disjI1) (simp add: All_less_Suc2)
      next
        case (Inl e1)
        show ?thesis
        proof (cases "best = Some (t, e)")
          case True
          with b Inl have "t \<le> rank i"
            by (auto split: if_splits)
          with True m Inl show ?thesis
            by (intro disjI1) (simp add: All_less_Suc2)
        next
          case False
          with b Inl have t: "t = rank i" and e: "e = e1"
            and lt: "\<forall>t0 e0. best = Some (t0, e0) \<longrightarrow> t < t0"
            by (auto split: option.splits if_splits)
          have "\<forall>j<length (r # rs). \<forall>e'. (r # rs) ! j = Inl e' \<longrightarrow>
              rank (i + 0) < rank (i + j) \<or> (rank (i + 0) = rank (i + j) \<and> 0 \<le> j)"
          proof (intro allI impI)
            fix j e'
            assume "j < length (r # rs)" "(r # rs) ! j = Inl e'"
            then show "rank (i + 0) < rank (i + j) \<or> (rank (i + 0) = rank (i + j) \<and> 0 \<le> j)"
              using m t by (cases j) (auto simp: le_less)
          qed
          with t e lt Inl show ?thesis
            by (intro disjI2) (rule exI [of _ 0], simp)
        qed
      qed
    next
      fix k
      assume k: "k < length rs" "rs ! k = Inl e" "t = rank (Suc i + k)"
        and lt: "\<forall>t0 e0. ?b = Some (t0, e0) \<longrightarrow> t < t0"
        and m: "\<forall>j<length rs. \<forall>e'. rs ! j = Inl e' \<longrightarrow>
              rank (Suc i + k) < rank (Suc i + j) \<or> (rank (Suc i + k) = rank (Suc i + j) \<and> k \<le> j)"
      have lt': "\<forall>t0 e0. best = Some (t0, e0) \<longrightarrow> t < t0"
        using lt by (cases r) (auto split: option.splits if_splits)
      have hd: "\<forall>e'. r = Inl e' \<longrightarrow> t < rank i"
        using lt by (cases r) (auto split: option.splits if_splits)
      have "\<forall>j<length (r # rs). \<forall>e'. (r # rs) ! j = Inl e' \<longrightarrow>
              rank (i + Suc k) < rank (i + j) \<or> (rank (i + Suc k) = rank (i + j) \<and> Suc k \<le> j)"
      proof (intro allI impI)
        fix j e'
        assume "j < length (r # rs)" "(r # rs) ! j = Inl e'"
        then show "rank (i + Suc k) < rank (i + j) \<or> (rank (i + Suc k) = rank (i + j) \<and> Suc k \<le> j)"
          using m hd k(3) by (cases j) auto
      qed
      with k lt' show ?thesis
        by (intro disjI2) (rule exI [of _ "Suc k"], simp)
    qed
    from Some te step goal show ?thesis
      by (simp del: first_rejection.simps)
  qed
qed

section \<open>Navigator: into a child\<close>

text \<open>
  C10. \<open>toChild\<close> called while \<open>currentDirectoryItems\<close> is still undefined returns
  normally and leaves every field of the navigator as it was.
\<close>

theorem toChild_before_listing:
  "currentDirectoryItems s = None \<Longrightarrow> toChild folderPath s = (Inr (), s)"
  by (simp add: toChild_def)

theorem toChild_before_listing_witness:
  "currentDirectoryItems (Navigator_new example_world ''/a'') = None \<and>
   toChild ''/a/b'' (Navigator_new example_world ''/a'') =
     (Inr (), Navigator_new example_world ''/a'')"
proof -
  have n: "currentDirectoryItems (Navigator_new example_world ''/a'') = None"
    by (simp add: Navigator_new_def)
  from toChild_before_listing [OF n, of "''/a/b''"] n show ?thesis
    by simp
qed

text \<open>
  C2 (as amended). Let \<open>childPath\<close> be the path of an entry of the current listing.
  If the entry's \<open>childItems\<close> has resolved, \<open>toChild\<close> succeeds: the resolved
  list becomes \<open>currentDirectoryItems\<close>, the old listing and path become the parent's,
  and the only Directory Store calls are the listings requested for the directories of
  the promoted list, so none lists \<open>childPath\<close> unless a promoted entry carries that
  path. If \<open>childItems\<close> has not resolved, \<open>toChild\<close> does not fall back to a
  listing: it throws the \<open>LoggedError\<close>, issues no call and changes nothing.
\<close>

theorem toChild_promotes_or_throws:
  assumes "currentDirectoryItems s = Some items"
      and "find (\<lambda>a. path (heap s ! a) = childPath) items = Some c"
  shows "case childItems (heap s ! c) of
           Some grandChildItems \<Rightarrow>
             toChild childPath s =
               (Inr (), s\<lparr>currentPath := Some childPath,
                           currentDirectoryItems := Some grandChildItems,
                           parentDirectoryPath :=
                             (case currentPath s of None \<Rightarrow> Undefined | Some p \<Rightarrow> Resolved p),
                           parentDirectoryItems := Some items,
                           calls := calls s @ listings (heap s) grandChildItems,
                           pending := pending s @
                             map ListGrandChildren (directories (heap s) grandChildItems)\<rparr>) \<and>
             (list_all (\<lambda>g. path (heap s ! g) \<noteq> childPath) grandChildItems \<longrightarrow>
                ListDirectory childPath \<notin> set (listings (heap s) grandChildItems))
         | None \<Rightarrow>
             toChild childPath s =
               (Inl (LoggedError (''Child items for '' @ childPath @
                       '' have not begun retrieval'') None), s)"
proof (cases "childItems (heap s ! c)")
  case None
  with assms show ?thesis
    by (simp add: toChild_unresolved)
next
  case (Some grandChildItems)
  have "list_all (\<lambda>g. path (heap s ! g) \<noteq> childPath) grandChildItems \<longrightarrow>
          ListDirectory childPath \<notin> set (listings (heap s) grandChildItems)"
    by (auto simp: list_all_iff dest: listings_mem)
  with assms Some show ?thesis
    by (simp add: toChild_resolved)
qed

theorem toChild_promotes_or_throws_witness:
  "currentDirectoryItems example_primed = Some [0, 1] \<and>
   find (\<lambda>a. path (heap example_primed ! a) = ''/a/b'') [0, 1] = Some 0 \<and>
   childItems (heap example_primed ! 0) = Some [3] \<and>
   fst (toChild ''/a/b'' example_primed) = Inr () \<and>
   currentDirectoryItems (snd (toChild ''/a/b'' example_primed)) = Some [3] \<and>
   calls (snd (toChild ''/a/b'' example_primed)) = calls example_primed"
proof -
  have l: "listings (heap example_primed) [3] = []"
    by code_simp
  have n: "list_all (\<lambda>g. path (heap example_primed ! g) \<noteq> ''/a/b'') [3]"
    by code_simp
  from toChild_promotes_or_throws [OF primed_items primed_find] primed_child l n
  have r: "toChild ''/a/b'' example_primed =
      (Inr (), example_primed\<lparr>currentPath := Some ''/a/b'',
         currentDirectoryItems := Some [3],
         parentDirectoryPath :=
           (case currentPath example_primed of None \<Rightarrow> Undefined | Some p \<Rightarrow> Resolved p),
         parentDirectoryItems := Some [0, 1],
         calls := calls example_primed @ [],
         pending := pending example_primed @
           map ListGrandChildren (directories (heap example_primed) [3])\<rparr>)"
    by simp
  have "fst (toChild ''/a/b'' example_primed) = Inr ()"
    and "currentDirectoryItems (snd (toChild ''/a/b'' example_primed)) = Some [3]"
    and "calls (snd (toChild ''/a/b'' example_primed)) = calls example_primed"
    by (simp_all add: r)
  with primed_items primed_find primed_child show ?thesis
    by blast
qed

theorem toChild_unresolved_counterexample:
  "currentDirectoryItems example_listed = Some [0, 1] \<and>
   isDirectory (heap example_listed ! 0) \<and>
   path (heap example_listed ! 0) = ''/a/b'' \<and>
   childItems (heap example_listed ! 0) = None \<and>
   toChild ''/a/b'' example_listed =
     (Inl (LoggedError ''Child items for /a/b have not begun retrieval'' None), example_listed)"
  by code_simp

section \<open>Navigator: into a child and back\<close>

text \<open>
  C5 (as amended). Let the navigator show \<open>p\<close> with the listing \<open>items\<close>, let \<open>c\<close>
  be the path of an entry whose \<open>childItems\<close> has resolved, let no request of the
  constructor's first listing be unanswered, and let \<open>p\<close> differ from its own
  \<open>dirname\<close> and from the path of every entry of \<open>items\<close> and of the child's list.
  Then \<open>toChild(c)\<close> followed at once by \<open>toParent()\<close> succeeds twice and, whatever
  answers arrive while \<open>toParent\<close> waits, the navigator shows \<open>p\<close> again with the
  very same array \<open>items\<close>, whose objects carry the same listing data. When no answer
  arrives in between, none of the Directory Store calls the two operations issue is a
  listing of \<open>p\<close>.
\<close>

theorem toChild_toParent_round_trip:
  assumes cur: "currentPath s = Some p"
      and items: "currentDirectoryItems s = Some items"
      and child: "find (\<lambda>a. path (heap s ! a) = c) items = Some ci"
      and resolved: "childItems (heap s ! ci) = Some grand"
      and noinit: "no_initial (pending s)"
      and valid: "list_all (\<lambda>a. a < length (heap s)) items"
      and other: "list_all (\<lambda>a. path (heap s ! a) \<noteq> p) (items @ grand)"
      and notroot: "dirname w p \<noteq> p"
  shows "fst (toChild c s) = Inr () \<and>
         fst (toParent w sched (snd (toChild c s))) = Inr () \<and>
         currentPath (snd (toParent w sched (snd (toChild c s)))) = Some p \<and>
         currentDirectoryItems (snd (toParent w sched (snd (toChild c s)))) = Some items \<and>
         map (\<lambda>a. item_of (heap (snd (toParent w sched (snd (toChild c s)))) ! a)) items =
           map (\<lambda>a. item_of (heap s ! a)) items \<and>
         (\<exists>new. calls (snd (toParent w [] (snd (toChild c s)))) = calls s @ new \<and>
                ListDirectory p \<notin> set new)"
proof -
  define s1 where "s1 = s\<lparr>currentPath := Some c,
      currentDirectoryItems := Some grand,
      parentDirectoryPath := (case currentPath s of None \<Rightarrow> Undefined | Some p \<Rightarrow> Resolved p),
      parentDirectoryItems := Some items,
      calls := calls s @ listings (heap s) grand,
      pending := pending s @ map ListGrandChildren (directories (heap s) grand)\<rparr>"
  have tc: "toChild c s = (Inr (), s1)"
    unfolding s1_def using items child resolved by (rule toChild_resolved)
  define s4 where "s4 = s1\<lparr>currentPath := Some p, currentDirectoryItems := Some items,
      pending := pending s1 @ map ListGrandChildren (directories (heap s1) items),
      calls := calls s1 @ listings (heap s1) items @ [Exists (dirname w p)]\<rparr>"
  have pp: "parentDirectoryPath s1 = Resolved p" and pi: "parentDirectoryItems s1 = Some items"
    using cur by (simp_all add: s1_def)
  have tp: "toParent w sched' s1 = (Inr (), parentPathResolved w p (run_tasks w sched' s4))"
    for sched'
    unfolding s4_def using pp pi by (rule toParent_resolved)
  have h4: "heap s4 = heap s"
    by (simp add: s4_def s1_def)
  have ni: "no_initial (pending s4)"
    using noinit by (simp add: s4_def s1_def)
  have ci: "currentDirectoryItems (run_tasks w sched s4) = Some items"
    using run_tasks_no_initial [OF ni, of w sched] by (simp add: s4_def)
  have cp: "currentPath (run_tasks w sched s4) = Some p"
    by (simp add: run_tasks_currentPath s4_def)
  have st: "map (\<lambda>a. item_of (heap (run_tasks w sched s4) ! a)) items =
      map (\<lambda>a. item_of (heap s ! a)) items"
  proof (rule map_cong [OF refl])
    fix a
    assume "a \<in> set items"
    with valid have "a < length (heap s4)"
      by (simp add: list_all_iff h4)
    with run_tasks_heap [of s4 w sched a] show
      "item_of (heap (run_tasks w sched s4) ! a) = item_of (heap s ! a)"
      by (simp add: h4)
  qed
  let ?new = "listings (heap s) grand @ listings (heap s) items @ [Exists (dirname w p)] @
      (if exists w (dirname w p) \<and> dirname w p \<noteq> [] then [ListDirectory (dirname w p)] else [])"
  have "calls (snd (toParent w [] s1)) = calls (parentPathResolved w p (run_tasks w [] s4))"
    by (simp add: tp)
  also have "\<dots> = calls s @ ?new"
    by (simp add: parentPathResolved_fields s4_def s1_def)
  finally have calls: "calls (snd (toParent w [] s1)) = calls s @ ?new" .
  have "ListDirectory p \<notin> set (listings (heap s) grand)"
    and "ListDirectory p \<notin> set (listings (heap s) items)"
    using other by (auto simp: list_all_iff dest: listings_mem)
  with notroot have "ListDirectory p \<notin> set ?new"
    by auto
  with calls have "\<exists>new. calls (snd (toParent w [] s1)) = calls s @ new \<and>
      ListDirectory p \<notin> set new"
    by blast
  with ci cp st show ?thesis
    by (simp add: tc tp parentPathResolved_fields)
qed

theorem toChild_toParent_round_trip_witness:
  "fst (toChild ''/a/b'' example_primed) = Inr () \<and>
   fst (toParent example_world [] (snd (toChild ''/a/b'' example_primed))) = Inr () \<and>
   currentPath example_primed = Some ''/a'' \<and>
   currentPath (snd (toParent example_world [] (snd (toChild ''/a/b'' example_primed)))) =
     Some ''/a'' \<and>
   currentDirectoryItems example_primed = Some [0, 1] \<and>
   currentDirectoryItems (snd (toParent example_world [] (snd (toChild ''/a/b'' example_primed)))) =
     Some [0, 1]"
proof -
  have cur: "currentPath example_primed = Some ''/a''"
    by code_simp
  have noinit: "no_initial (pending example_primed)"
    by code_simp
  have valid: "list_all (\<lambda>a. a < length (heap example_primed)) [0, 1]"
    by code_simp
  have other: "list_all (\<lambda>a. path (heap example_primed ! a) \<noteq> ''/a'') ([0, 1] @ [3])"
    by code_simp
  have notroot: "dirname example_world ''/a'' \<noteq> ''/a''"
    by (simp add: example_world_def)
  from toChild_toParent_round_trip [OF cur primed_items primed_find primed_child noinit valid
      other notroot, of "[]"] cur primed_items
  show ?thesis
    by blast
qed

theorem toChild_toParent_round_trip_counterexample:
  "currentDirectoryItems example_listed = Some [0, 1] \<and>
   isDirectory (heap example_listed ! 0) \<and>
   path (heap example_listed ! 0) = ''/a/b'' \<and>
   currentDirectoryItems
     (snd (toParent example_world [] (snd (toChild ''/a/b'' example_listed)))) \<noteq> Some [0, 1] \<and>
   currentPath example_root = Some ''/'' \<and>
   fst (toChild ''/a'' example_root) = Inr () \<and>
   fst (toParent example_world [] (snd (toChild ''/a'' example_root))) = Inr () \<and>
   drop (length (calls example_root))
     (calls (snd (toParent example_world [] (snd (toChild ''/a'' example_root))))) =
     [ListDirectory ''/a/b'', ListDirectory ''/a'', ListDirectory ''/p'', Exists ''/'',
      ListDirectory ''/''] \<and>
   currentDirectoryItems example_racing = Some [0, 1] \<and>
   pending example_racing = [InitialList ''/a/b'', ResolveParent ''/a/b'', ListParent ''/''] \<and>
   fst (toChild ''/a/b'' example_racing) = Inr () \<and>
   fst (toParent example_world [0] (snd (toChild ''/a/b'' example_racing))) = Inr () \<and>
   currentDirectoryItems
     (snd (toParent example_world [0] (snd (toChild ''/a/b'' example_racing)))) = Some [3]"
  by code_simp

section \<open>Navigator: up to the parent\<close>

text \<open>
  C6. \<open>toParent\<close> in a navigator whose parent path has resolved to \<open>/a\<close> while the
  parent's listing has not arrived yet: the tracked parent path is not \<open>null\<close>, and
  still \<open>toParent\<close> throws (a \<open>TypeError\<close>), after it has overwritten \<open>currentPath\<close>
  with the parent's path and \<open>currentDirectoryItems\<close> with \<open>undefined\<close>.
\<close>

theorem toParent_unlisted_parent_throws:
  "currentPath example_parent_unlisted = Some ''/a/b'' \<and>
   currentDirectoryItems example_parent_unlisted = Some [0] \<and>
   parentDirectoryPath example_parent_unlisted = Resolved ''/a'' \<and>
   parentDirectoryItems example_parent_unlisted = None \<and>
   toParent example_world [] example_parent_unlisted =
     (Inl TypeError,
      example_parent_unlisted\<lparr>currentPath := Some ''/a'', currentDirectoryItems := None\<rparr>)"
  by code_simp

section \<open>Navigator: jumping to the path already shown\<close>

text \<open>
  C1 (as amended). \<open>toDirectory(p)\<close> with \<open>p\<close> the current path, \<open>p\<close> neither the
  tracked parent path nor the path of a current entry, is not a no-op. \<open>currentPath\<close>
  stays \<open>p\<close>, but the first thing it does is to ask the Directory Store for a listing
  of \<open>p\<close>. If that listing fails, \<open>toDirectory\<close> fails with its error; if it succeeds,
  \<open>toDirectory\<close> succeeds and (no request of the constructor's first listing being
  unanswered) \<open>currentDirectoryItems\<close> is an array of objects that did not exist
  before and that carry the new listing.
\<close>

theorem toDirectory_current_path_relists:
  assumes cur: "currentPath s = Some p"
      and notparent: "parentDirectoryPath s \<noteq> Resolved p"
      and notchild: "(case currentDirectoryItems s of None \<Rightarrow> None
                      | Some items \<Rightarrow> find (\<lambda>a. path (heap s ! a) = p) items) = None"
  shows "currentPath (snd (toDirectory w sched1 sched2 p s)) = Some p \<and>
         (\<exists>rest. calls (snd (toDirectory w sched1 sched2 p s)) =
                   calls s @ ListDirectory p # rest) \<and>
         (case listDirectory w p of
            Inl e \<Rightarrow> fst (toDirectory w sched1 sched2 p s) = Inl e
          | Inr items \<Rightarrow>
              fst (toDirectory w sched1 sched2 p s) = Inr () \<and>
              (no_initial (pending s) \<longrightarrow>
                 (\<exists>addrs. currentDirectoryItems (snd (toDirectory w sched1 sched2 p s)) =
                            Some addrs \<and>
                          list_all (\<lambda>a. length (heap s) \<le> a) addrs \<and>
                          map (\<lambda>a. item_of (heap (snd (toDirectory w sched1 sched2 p s)) ! a))
                            addrs = items)))"
proof -
  define s1 where "s1 = s\<lparr>currentPath := Some p, calls := calls s @ [ListDirectory p]\<rparr>"
  define s2 where "s2 = run_tasks w sched1 s1"
  have cp2: "currentPath s2 = Some p"
    by (simp add: s2_def run_tasks_currentPath s1_def)
  obtain ext1 where c2: "calls s2 = calls s @ ListDirectory p # ext1"
    using run_tasks_calls [of w sched1 s1] by (auto simp: s2_def s1_def)
  have len2: "length (heap s) \<le> length (heap s2)"
    using run_tasks_heap [of s1 w sched1 0] by (simp add: s2_def s1_def)
  show ?thesis
  proof (cases "listDirectory w p")
    case (Inl e)
    with notparent notchild have "toDirectory w sched1 sched2 p s = (Inl e, s2)"
      by (simp add: toDirectory_def Let_def s2_def s1_def)
    with Inl cp2 c2 show ?thesis
      by simp
  next
    case (Inr items)
    define addrs where "addrs = fst (alloc items (heap s2))"
    define h where "h = snd (alloc items (heap s2))"
    have al: "alloc items (heap s2) = (addrs, h)"
      by (simp add: addrs_def h_def)
    define s5 where "s5 = s2\<lparr>heap := h, currentDirectoryItems := Some addrs,
        pending := pending s2 @ map ListGrandChildren (directories h addrs),
        calls := calls s2 @ listings h addrs @ [Exists (dirname w p)]\<rparr>"
    define s6 where "s6 = run_tasks w sched2 s5"
    have td: "toDirectory w sched1 sched2 p s = (Inr (), parentPathResolved w p s6)"
      using notparent notchild Inr cp2 al
      by (simp add: toDirectory_def Let_def retrieveGrandChildren_closed
          s6_def s5_def s2_def s1_def)
    have cp6: "currentPath s6 = Some p"
      by (simp add: s6_def run_tasks_currentPath s5_def cp2)
    obtain ext2 where "calls s6 = calls s5 @ ext2"
      using run_tasks_calls [of w sched2 s5] by (auto simp: s6_def)
    with c2 have c6: "\<exists>rest. calls (parentPathResolved w p s6) = calls s @ ListDirectory p # rest"
      by (simp add: parentPathResolved_fields s5_def)
    have frame: "no_initial (pending s) \<longrightarrow>
        (\<exists>addrs. currentDirectoryItems (parentPathResolved w p s6) = Some addrs \<and>
           list_all (\<lambda>a. length (heap s) \<le> a) addrs \<and>
           map (\<lambda>a. item_of (heap (parentPathResolved w p s6) ! a)) addrs = items)"
    proof
      assume ni: "no_initial (pending s)"
      then have "no_initial (pending s1)"
        by (simp add: s1_def)
      then have ni2: "no_initial (pending s2)"
        using run_tasks_no_initial [of s1 w sched1] by (simp add: s2_def)
      then have "no_initial (pending s5)"
        by (simp add: s5_def)
      then have cd: "currentDirectoryItems s6 = Some addrs"
        using run_tasks_no_initial [of s5 w sched2] by (simp add: s6_def s5_def)
      from alloc_new [OF al] have ad: "addrs = [length (heap s2) ..< length (heap s2) + length items]"
        and mp: "map (\<lambda>a. item_of (h ! a)) addrs = items"
        by blast+
      from ad len2 have fresh: "list_all (\<lambda>a. length (heap s) \<le> a) addrs"
        by (auto simp: list_all_iff)
      have hl: "length h = length (heap s2) + length items"
        using alloc_length [OF al] .
      have "map (\<lambda>a. item_of (heap s6 ! a)) addrs = map (\<lambda>a. item_of (h ! a)) addrs"
      proof (rule map_cong [OF refl])
        fix a
        assume "a \<in> set addrs"
        with ad hl have "a < length (heap s5)"
          by (simp add: s5_def)
        with run_tasks_heap [of s5 w sched2 a]
        show "item_of (heap s6 ! a) = item_of (h ! a)"
          by (simp add: s6_def s5_def)
      qed
      with mp cd fresh show "\<exists>addrs. currentDirectoryItems (parentPathResolved w p s6) = Some addrs \<and>
           list_all (\<lambda>a. length (heap s) \<le> a) addrs \<and>
           map (\<lambda>a. item_of (heap (parentPathResolved w p s6) ! a)) addrs = items"
        by (simp add: parentPathResolved_fields)
    qed
    from Inr cp6 c6 frame show ?thesis
      by (simp add: td parentPathResolved_fields)
  qed
qed


theorem toDirectory_current_path_relists_witness:
  "currentPath example_primed = Some ''/a'' \<and>
   currentPath (snd (toDirectory example_world [] [] ''/a'' example_primed)) = Some ''/a'' \<and>
   fst (toDirectory example_world [] [] ''/a'' example_primed) = Inr () \<and>
   (\<exists>rest. calls (snd (toDirectory example_world [] [] ''/a'' example_primed)) =
      calls example_primed @ ListDirectory ''/a'' # rest)"
proof -
  have cur: "currentPath example_primed = Some ''/a''"
    by code_simp
  have notparent: "parentDirectoryPath example_primed \<noteq> Resolved ''/a''"
    by code_simp
  have notchild: "(case currentDirectoryItems example_primed of None \<Rightarrow> None
      | Some items \<Rightarrow> find (\<lambda>a. path (heap example_primed ! a) = ''/a'') items) = None"
    by code_simp
  have l: "listDirectory example_world ''/a'' =
      Inr [example_item ''b'' ''/a/b'' True, example_item ''c'' ''/a/c'' False]"
    by (simp add: example_world_def)
  from toDirectory_current_path_relists [OF cur notparent notchild, of example_world "[]" "[]"] cur
  show ?thesis
    by (simp add: l)
qed

theorem toDirectory_current_path_counterexample:
  "currentPath example_primed = Some ''/a'' \<and>
   currentDirectoryItems example_primed = Some [0, 1] \<and>
   fst (toDirectory example_world [] [] ''/a'' example_primed) = Inr () \<and>
   currentDirectoryItems (snd (toDirectory example_world [] [] ''/a'' example_primed)) =
     Some [8, 9] \<and>
   drop (length (calls example_primed))
     (calls (snd (toDirectory example_world [] [] ''/a'' example_primed))) =
     [ListDirectory ''/a'', ListDirectory ''/a/b'', Exists ''/'', ListDirectory ''/'']"
  by code_simp
section \<open>Navigator: a grandchild listing that fails\<close>

text \<open>
  C9. When the answer to a pending grandchild listing is a failure, its continuation
  appends one warning to the log and does nothing else: no field of the navigator, no
  heap object and no other request changes, and no rejection is left unhandled. The
  outcome of \<open>toParent\<close> and of \<open>toDirectory\<close> is the same whatever answers arrive
  while they wait, so such a failure never makes the navigation fail.
\<close>

theorem failed_grandchild_listing_swallowed:
  assumes "i < length (pending s)"
      and "pending s ! i = ListGrandChildren a"
      and "listDirectory w (path (heap s ! a)) = Inl e"
  shows "run_tasks w [i] s =
           s\<lparr>pending := take i (pending s) @ drop (Suc i) (pending s),
             warnings := warnings s @
               [''Could not retrieve grand children for '' @ path (heap s ! a)]\<rparr> \<and>
         fst (toParent w sched s) = fst (toParent w [] s) \<and>
         fst (toDirectory w sched1 sched2 p s) = fst (toDirectory w [] [] p s)"
proof (intro conjI)
  from assms show "run_tasks w [i] s =
           s\<lparr>pending := take i (pending s) @ drop (Suc i) (pending s),
             warnings := warnings s @
               [''Could not retrieve grand children for '' @ path (heap s ! a)]\<rparr>"
    by simp
  show "fst (toParent w sched s) = fst (toParent w [] s)"
    by (rule toParent_outcome)
  show "fst (toDirectory w sched1 sched2 p s) = fst (toDirectory w [] [] p s)"
    by (rule toDirectory_outcome)
qed

theorem failed_grandchild_listing_swallowed_witness:
  "pending example_root_listed ! 2 = ListGrandChildren 1 \<and>
   listDirectory example_world (path (heap example_root_listed ! 1)) =
     Inl (DirectoryError ''Could not list items in directory'' ''/p'' None) \<and>
   run_tasks example_world [2] example_root_listed =
     example_root_listed
       \<lparr>pending := [ResolveParent ''/'', ListGrandChildren 0, ListGrandChildren 0,
                    ListGrandChildren 1],
        warnings := [''Could not retrieve grand children for /p'']\<rparr> \<and>
   fst (toParent example_world [1] example_root) = Inr () \<and>
   warnings (snd (toParent example_world [1] example_root)) =
     warnings example_root @ [''Could not retrieve grand children for /p'']"
proof -
  have len: "2 < length (pending example_root_listed)"
    by code_simp
  have task: "pending example_root_listed ! 2 = ListGrandChildren 1"
    by code_simp
  have fails: "listDirectory example_world (path (heap example_root_listed ! 1)) =
      Inl (DirectoryError ''Could not list items in directory'' ''/p'' None)"
    by code_simp
  have p: "take 2 (pending example_root_listed) @ drop (Suc 2) (pending example_root_listed) =
      [ResolveParent ''/'', ListGrandChildren 0, ListGrandChildren 0, ListGrandChildren 1]"
    by code_simp
  have m: "warnings example_root_listed @
      [''Could not retrieve grand children for '' @ path (heap example_root_listed ! 1)] =
      [''Could not retrieve grand children for /p'']"
    by code_simp
  have ok: "fst (toParent example_world [] example_root) = Inr ()"
    by code_simp
  have w: "warnings (snd (toParent example_world [1] example_root)) =
     warnings example_root @ [''Could not retrieve grand children for /p'']"
    by code_simp
  from failed_grandchild_listing_swallowed [OF len task fails, of "[1]" "[]" "[]" "''/''"]
  have "run_tasks example_world [2] example_root_listed =
      example_root_listed
        \<lparr>pending := take 2 (pending example_root_listed) @
           drop (Suc 2) (pending example_root_listed),
         warnings := warnings example_root_listed @
           [''Could not retrieve grand children for '' @ path (heap example_root_listed ! 1)]\<rparr>"
    by blast
  then have r: "run_tasks example_world [2] example_root_listed =
     example_root_listed
       \<lparr>pending := [ResolveParent ''/'', ListGrandChildren 0, ListGrandChildren 0,
                    ListGrandChildren 1],
        warnings := [''Could not retrieve grand children for /p'']\<rparr>"
    by (simp only: p m)
  have "fst (toParent example_world [1] example_root) = fst (toParent example_world [] example_root)"
    by (rule toParent_outcome)
  with ok have "fst (toParent example_world [1] example_root) = Inr ()"
    by simp
  with task fails r w show ?thesis
    by blast
qed
section \<open>DirectoryManager: moving an item\<close>

text \<open>
  C8. \<open>moveItem\<close> copies, then deletes. If the copy fails, \<open>moveItem\<close> fails with a
  \<open>DirectoryError\<close>, the copy is the only primitive it has invoked and the file
  system is exactly as the failed copy left it: the source is not deleted. If the copy
  succeeds, the deletion of the source runs on the file system the copy has left;
  \<open>moveItem\<close> succeeds exactly when that deletion does and otherwise fails with a
  \<open>DirectoryError\<close>, and the file system is the one the deletion leaves.
\<close>

theorem moveItem_copy_then_delete:
  "(\<not> fst (copyFileAsync n itemPath (join n destinationDirectory (basename n itemPath)) (fs m)) \<longrightarrow>
      moveItem n itemPath destinationDirectory itemType m =
        (Inl (DirectoryError ''Failed to copy item'' itemPath (Some destinationDirectory)),
         m\<lparr>fs := snd (copyFileAsync n itemPath
                        (join n destinationDirectory (basename n itemPath)) (fs m)),
           ops := ops m @ [Ncp itemPath (join n destinationDirectory (basename n itemPath))]\<rparr>)) \<and>
   (fst (copyFileAsync n itemPath (join n destinationDirectory (basename n itemPath)) (fs m)) \<longrightarrow>
      moveItem n itemPath destinationDirectory itemType m =
        ((if fst ((if itemType = Folder then rmdirAsync n else unlinkAsync n) itemPath
                   (snd (copyFileAsync n itemPath
                           (join n destinationDirectory (basename n itemPath)) (fs m))))
          then Inr ()
          else Inl (DirectoryError ''Failed to copy item'' itemPath (Some destinationDirectory))),
         m\<lparr>fs := snd ((if itemType = Folder then rmdirAsync n else unlinkAsync n) itemPath
                        (snd (copyFileAsync n itemPath
                                (join n destinationDirectory (basename n itemPath)) (fs m)))),
           ops := ops m @ [Ncp itemPath (join n destinationDirectory (basename n itemPath)),
                           if itemType = Folder then Rmdir itemPath else Unlink itemPath]\<rparr>))"
  by (simp add: moveItem_def copyItem_def deleteItem_def Let_def case_prod_beta)


theorem moveItem_copy_then_delete_witness:
  "(''/d/1'', False) \<in> set example_disk \<and>
   moveItem example_fs ''/d/1'' ''/x'' File (example_manager example_disk) =
     (Inl (DirectoryError ''Failed to copy item'' ''/d/1'' (Some ''/x'')),
      \<lparr>fs = example_disk, ops = [Ncp ''/d/1'' ''/x/1''], watchers = [], watcher = None\<rparr>) \<and>
   moveItem example_fs ''/d/1'' ''/e'' File (example_manager example_disk) =
     (Inr (),
      \<lparr>fs = [(''/d'', True), (''/d/2'', True), (''/d/2/x'', False), (''/d/3'', False),
             (''/e'', True), (''/e/1'', False)],
       ops = [Ncp ''/d/1'' ''/e/1'', Unlink ''/d/1''], watchers = [], watcher = None\<rparr>) \<and>
   moveItem example_fs ''/d/2'' ''/e'' Folder (example_manager example_disk) =
     (Inl (DirectoryError ''Failed to copy item'' ''/d/2'' (Some ''/e'')),
      \<lparr>fs = [(''/d'', True), (''/d/1'', False), (''/d/2'', True), (''/d/2/x'', False),
             (''/d/3'', False), (''/e'', True), (''/e/2'', True), (''/e/2/x'', False)],
       ops = [Ncp ''/d/2'' ''/e/2'', Rmdir ''/d/2''], watchers = [], watcher = None\<rparr>)"
proof -
  let ?m = "example_manager example_disk"
  let ?copy = "\<lambda>p d. copyFileAsync example_fs p (join example_fs d (basename example_fs p)) (fs ?m)"
  have src: "(''/d/1'', False) \<in> set example_disk"
    by code_simp
  have h1: "\<not> fst (?copy ''/d/1'' ''/x'')"
    by code_simp
  have v1: "(Inl (DirectoryError ''Failed to copy item'' ''/d/1'' (Some ''/x'')) :: error + unit,
       ?m\<lparr>fs := snd (?copy ''/d/1'' ''/x''),
          ops := ops ?m @ [Ncp ''/d/1'' (join example_fs ''/x'' (basename example_fs ''/d/1''))]\<rparr>) =
     (Inl (DirectoryError ''Failed to copy item'' ''/d/1'' (Some ''/x'')),
      \<lparr>fs = example_disk, ops = [Ncp ''/d/1'' ''/x/1''], watchers = [], watcher = None\<rparr>)"
    by code_simp
  from moveItem_copy_then_delete [of example_fs "''/d/1''" "''/x''" ?m File] h1
  have "moveItem example_fs ''/d/1'' ''/x'' File ?m =
      (Inl (DirectoryError ''Failed to copy item'' ''/d/1'' (Some ''/x'')),
       ?m\<lparr>fs := snd (?copy ''/d/1'' ''/x''),
          ops := ops ?m @ [Ncp ''/d/1'' (join example_fs ''/x'' (basename example_fs ''/d/1''))]\<rparr>)"
    by blast
  then have r1: "moveItem example_fs ''/d/1'' ''/x'' File ?m =
     (Inl (DirectoryError ''Failed to copy item'' ''/d/1'' (Some ''/x'')),
      \<lparr>fs = example_disk, ops = [Ncp ''/d/1'' ''/x/1''], watchers = [], watcher = None\<rparr>)"
    by (simp only: v1)
  have h2: "fst (?copy ''/d/1'' ''/e'')"
    by code_simp
  have v2: "((if fst ((if File = Folder then rmdirAsync example_fs else unlinkAsync example_fs)
                   ''/d/1'' (snd (?copy ''/d/1'' ''/e'')))
          then Inr ()
          else Inl (DirectoryError ''Failed to copy item'' ''/d/1'' (Some ''/e''))),
       ?m\<lparr>fs := snd ((if File = Folder then rmdirAsync example_fs else unlinkAsync example_fs)
                      ''/d/1'' (snd (?copy ''/d/1'' ''/e''))),
          ops := ops ?m @ [Ncp ''/d/1'' (join example_fs ''/e'' (basename example_fs ''/d/1'')),
                           if File = Folder then Rmdir ''/d/1'' else Unlink ''/d/1'']\<rparr>) =
     (Inr (),
      \<lparr>fs = [(''/d'', True), (''/d/2'', True), (''/d/2/x'', False), (''/d/3'', False),
             (''/e'', True), (''/e/1'', False)],
       ops = [Ncp ''/d/1'' ''/e/1'', Unlink ''/d/1''], watchers = [], watcher = None\<rparr>)"
    by code_simp
  from moveItem_copy_then_delete [of example_fs "''/d/1''" "''/e''" ?m File] h2
  have "moveItem example_fs ''/d/1'' ''/e'' File ?m =
     ((if fst ((if File = Folder then rmdirAsync example_fs else unlinkAsync example_fs)
                   ''/d/1'' (snd (?copy ''/d/1'' ''/e'')))
          then Inr ()
          else Inl (DirectoryError ''Failed to copy item'' ''/d/1'' (Some ''/e''))),
       ?m\<lparr>fs := snd ((if File = Folder then rmdirAsync example_fs else unlinkAsync example_fs)
                      ''/d/1'' (snd (?copy ''/d/1'' ''/e''))),
          ops := ops ?m @ [Ncp ''/d/1'' (join example_fs ''/e'' (basename example_fs ''/d/1'')),
                           if File = Folder then Rmdir ''/d/1'' else Unlink ''/d/1'']\<rparr>)"
    by blast
  then have r2: "moveItem example_fs ''/d/1'' ''/e'' File ?m =
     (Inr (),
      \<lparr>fs = [(''/d'', True), (''/d/2'', True), (''/d/2/x'', False), (''/d/3'', False),
             (''/e'', True), (''/e/1'', False)],
       ops = [Ncp ''/d/1'' ''/e/1'', Unlink ''/d/1''], watchers = [], watcher = None\<rparr>)"
    by (simp only: v2)
  have h3: "fst (?copy ''/d/2'' ''/e'')"
    by code_simp
  have v3: "((if fst ((if Folder = Folder then rmdirAsync example_fs else unlinkAsync example_fs)
                   ''/d/2'' (snd (?copy ''/d/2'' ''/e'')))
          then Inr ()
          else Inl (DirectoryError ''Failed to copy item'' ''/d/2'' (Some ''/e''))),
       ?m\<lparr>fs := snd ((if Folder = Folder then rmdirAsync example_fs else unlinkAsync example_fs)
                      ''/d/2'' (snd (?copy ''/d/2'' ''/e''))),
          ops := ops ?m @ [Ncp ''/d/2'' (join example_fs ''/e'' (basename example_fs ''/d/2'')),
                           if Folder = Folder then Rmdir ''/d/2'' else Unlink ''/d/2'']\<rparr>) =
     (Inl (DirectoryError ''Failed to copy item'' ''/d/2'' (Some ''/e'')),
      \<lparr>fs = [(''/d'', True), (''/d/1'', False), (''/d/2'', True), (''/d/2/x'', False),
             (''/d/3'', False), (''/e'', True), (''/e/2'', True), (''/e/2/x'', False)],
       ops = [Ncp ''/d/2'' ''/e/2'', Rmdir ''/d/2''], watchers = [], watcher = None\<rparr>)"
    by code_simp
  from moveItem_copy_then_delete [of example_fs "''/d/2''" "''/e''" ?m Folder] h3
  have "moveItem example_fs ''/d/2'' ''/e'' Folder ?m =
     ((if fst ((if Folder = Folder then rmdirAsync example_fs else unlinkAsync example_fs)
                   ''/d/2'' (snd (?copy ''/d/2'' ''/e'')))
          then Inr ()
          else Inl (DirectoryError ''Failed to copy item'' ''/d/2'' (Some ''/e''))),
       ?m\<lparr>fs := snd ((if Folder = Folder then rmdirAsync example_fs else unlinkAsync example_fs)
                      ''/d/2'' (snd (?copy ''/d/2'' ''/e''))),
          ops := ops ?m @ [Ncp ''/d/2'' (join example_fs ''/e'' (basename example_fs ''/d/2'')),
                           if Folder = Folder then Rmdir ''/d/2'' else Unlink ''/d/2'']\<rparr>)"
    by blast
  then have r3: "moveItem example_fs ''/d/2'' ''/e'' Folder ?m =
     (Inl (DirectoryError ''Failed to copy item'' ''/d/2'' (Some ''/e'')),
      \<lparr>fs = [(''/d'', True), (''/d/1'', False), (''/d/2'', True), (''/d/2/x'', False),
             (''/d/3'', False), (''/e'', True), (''/e/2'', True), (''/e/2/x'', False)],
       ops = [Ncp ''/d/2'' ''/e/2'', Rmdir ''/d/2''], watchers = [], watcher = None\<rparr>)"
    by (simp only: v3)
  from src r1 r2 r3 show ?thesis
    by blast
qed

section \<open>DirectoryManager: deleting a batch\<close>

text \<open>
  C7 (as amended). \<open>deleteItems\<close> invokes the deletion primitive of every item, once
  each and in the order of the array, whatever the outcome of the others, and nothing
  else; the file system it leaves is the one obtained by applying each of them in
  turn, so no successful deletion is undone. It fulfils exactly when the primitive of
  every item succeeded on the file system the items before it had left. When it
  rejects, the error is not an aggregate: it is the \<open>DirectoryError\<close> of one single
  item whose primitive failed, namely the one that settles first (least \<open>rank\<close>, and
  among equal ranks the first in the array).
\<close>

theorem deleteItems_best_effort:
  "snd (deleteItems n rank itemsToDelete m) =
     m\<lparr>fs := foldl (\<lambda>f item. deletion_effect n item f) (fs m) itemsToDelete,
       ops := ops m @ map (deletion_op n) itemsToDelete\<rparr> \<and>
   (fst (deleteItems n rank itemsToDelete m) = Inr ()) =
     (\<forall>i<length itemsToDelete.
        deletion_succeeds n (itemsToDelete ! i) (fs_before n itemsToDelete (fs m) i)) \<and>
   (\<forall>e. fst (deleteItems n rank itemsToDelete m) = Inl e \<longrightarrow>
      (\<exists>k<length itemsToDelete.
         \<not> deletion_succeeds n (itemsToDelete ! k) (fs_before n itemsToDelete (fs m) k) \<and>
         e = deletion_error n (itemsToDelete ! k) \<and>
         (\<forall>j<length itemsToDelete.
            \<not> deletion_succeeds n (itemsToDelete ! j) (fs_before n itemsToDelete (fs m) j) \<longrightarrow>
            rank k < rank j \<or> (rank k = rank j \<and> k \<le> j))))"
proof -
  define rs where "rs = fst (itemDeletions n itemsToDelete m)"
  let ?ok = "\<lambda>i. deletion_succeeds n (itemsToDelete ! i) (fs_before n itemsToDelete (fs m) i)"
  have len: "length rs = length itemsToDelete"
    by (simp add: rs_def itemDeletions_length)
  have nth: "rs ! i = (if ?ok i then Inr () else Inl (deletion_error n (itemsToDelete ! i)))"
    if "i < length itemsToDelete" for i
    using that by (simp add: rs_def itemDeletions_nth)
  have res: "fst (deleteItems n rank itemsToDelete m) = Promise_all rank rs"
    by (simp add: deleteItems_def case_prod_beta rs_def)
  have state: "snd (deleteItems n rank itemsToDelete m) =
     m\<lparr>fs := foldl (\<lambda>f item. deletion_effect n item f) (fs m) itemsToDelete,
       ops := ops m @ map (deletion_op n) itemsToDelete\<rparr>"
    by (simp add: deleteItems_def case_prod_beta itemDeletions_state)
  note fr = first_rejection_earliest [where rank = rank and i = 0 and rs = rs and best = None]
  have fulfils: "(Promise_all rank rs = Inr ()) = (\<forall>i<length itemsToDelete. ?ok i)"
  proof (cases "first_rejection rank 0 rs None")
    case None
    with fr have "\<forall>j<length rs. \<forall>e. rs ! j \<noteq> Inl e"
      by simp
    with len nth have "\<forall>i<length itemsToDelete. ?ok i"
      by (metis (no_types, lifting))
    with None show ?thesis
      by (simp add: Promise_all_def)
  next
    case (Some te)
    obtain t e where te: "te = (t, e)" by (cases te)
    with fr Some obtain k where "k < length rs" "rs ! k = Inl e"
      by auto
    with len nth [of k] have "\<not> ?ok k" "k < length itemsToDelete"
      by (auto split: if_splits)
    with Some te show ?thesis
      by (auto simp: Promise_all_def)
  qed
  have rejects: "\<exists>k<length itemsToDelete. \<not> ?ok k \<and> e = deletion_error n (itemsToDelete ! k) \<and>
      (\<forall>j<length itemsToDelete. \<not> ?ok j \<longrightarrow> rank k < rank j \<or> (rank k = rank j \<and> k \<le> j))"
    if "Promise_all rank rs = Inl e" for e
  proof -
    from that obtain t where s: "first_rejection rank 0 rs None = Some (t, e)"
      by (auto simp: Promise_all_def split: option.splits)
    with fr obtain k where k: "k < length rs" "rs ! k = Inl e"
      and least: "\<forall>j<length rs. \<forall>e'. rs ! j = Inl e' \<longrightarrow>
          rank k < rank j \<or> (rank k = rank j \<and> k \<le> j)"
      by auto
    from k len nth [of k] have a: "k < length itemsToDelete" "\<not> ?ok k"
        "e = deletion_error n (itemsToDelete ! k)"
      by (auto split: if_splits)
    have "rank k < rank j \<or> (rank k = rank j \<and> k \<le> j)"
      if "j < length itemsToDelete" "\<not> ?ok j" for j
    proof -
      from that nth [of j] have "rs ! j = Inl (deletion_error n (itemsToDelete ! j))"
        by simp
      with least that(1) len show ?thesis
        by simp
    qed
    with a show ?thesis
      by blast
  qed
  from state fulfils rejects show ?thesis
    unfolding res by blast
qed

theorem deleteItems_best_effort_witness:
  "deleteItems example_fs (\<lambda>i. i) example_items (example_manager example_disk) =
     (Inl (DirectoryError ''Cannot remove folder'' ''/d/2'' None),
      \<lparr>fs = [(''/d'', True), (''/d/2'', True), (''/d/2/x'', False), (''/e'', True)],
       ops = [Unlink ''/d/1'', Rmdir ''/d/2'', Unlink ''/d/3''],
       watchers = [], watcher = None\<rparr>) \<and>
   fst (deleteItems example_fs (\<lambda>i. 5 - i) example_items
          (example_manager example_disk_without_1)) =
     Inl (DirectoryError ''Cannot remove folder'' ''/d/2'' None)"
proof -
  let ?m = "example_manager example_disk"
  let ?ok = "\<lambda>i. deletion_succeeds example_fs (example_items ! i)
      (fs_before example_fs example_items (fs ?m) i)"
  let ?r = "deleteItems example_fs (\<lambda>i. i) example_items ?m"
  have len: "length example_items = 3"
    by code_simp
  have ok: "?ok 0" "\<not> ?ok 1" "?ok 2"
    by code_simp+
  have err: "deletion_error example_fs (example_items ! 1) =
      DirectoryError ''Cannot remove folder'' ''/d/2'' None"
    by code_simp
  have st: "?m\<lparr>fs := foldl (\<lambda>f item. deletion_effect example_fs item f) (fs ?m) example_items,
       ops := ops ?m @ map (deletion_op example_fs) example_items\<rparr> =
      \<lparr>fs = [(''/d'', True), (''/d/2'', True), (''/d/2/x'', False), (''/e'', True)],
       ops = [Unlink ''/d/1'', Rmdir ''/d/2'', Unlink ''/d/3''],
       watchers = [], watcher = None\<rparr>"
    by code_simp
  note t = deleteItems_best_effort [of example_fs "\<lambda>i. i" example_items ?m]
  from t st have s: "snd ?r =
      \<lparr>fs = [(''/d'', True), (''/d/2'', True), (''/d/2/x'', False), (''/e'', True)],
       ops = [Unlink ''/d/1'', Rmdir ''/d/2'', Unlink ''/d/3''],
       watchers = [], watcher = None\<rparr>"
    by (simp only:)
  from t ok(2) len have "fst ?r \<noteq> Inr ()"
    by (metis (no_types, lifting) one_less_numeral_iff semiring_norm(77))
  then obtain e where e: "fst ?r = Inl e"
    by (cases "fst ?r") auto
  with t obtain k where k: "k < length example_items" "\<not> ?ok k"
      "e = deletion_error example_fs (example_items ! k)"
    by blast
  from k(1) len have "k = 0 \<or> k = 1 \<or> k = 2"
    by auto
  with k(2) ok have "k = 1"
    by auto
  with k(3) err e have f: "fst ?r = Inl (DirectoryError ''Cannot remove folder'' ''/d/2'' None)"
    by simp
  let ?m' = "example_manager example_disk_without_1"
  let ?ok' = "\<lambda>i. deletion_succeeds example_fs (example_items ! i)
      (fs_before example_fs example_items (fs ?m') i)"
  let ?r' = "deleteItems example_fs (\<lambda>i. 5 - i) example_items ?m'"
  have ok': "\<not> ?ok' 0" "\<not> ?ok' 1" "?ok' 2"
    by code_simp+
  note t' = deleteItems_best_effort [of example_fs "\<lambda>i. 5 - i" example_items ?m']
  from t' ok'(2) len have "fst ?r' \<noteq> Inr ()"
    by (metis (no_types, lifting) one_less_numeral_iff semiring_norm(77))
  then obtain e' where e': "fst ?r' = Inl e'"
    by (cases "fst ?r'") auto
  with t' obtain k' where k': "k' < length example_items" "\<not> ?ok' k'"
      "e' = deletion_error example_fs (example_items ! k')"
      and least: "\<forall>j<length example_items. \<not> ?ok' j \<longrightarrow>
          5 - k' < 5 - j \<or> (5 - k' = 5 - j \<and> k' \<le> j)"
    by blast
  from k'(1) len have "k' = 0 \<or> k' = 1 \<or> k' = 2"
    by auto
  with k'(2) ok' have "k' = 0 \<or> k' = 1"
    by auto
  moreover from least ok'(2) len have "5 - k' < 5 - (1::nat) \<or> (5 - k' = 5 - (1::nat) \<and> k' \<le> 1)"
    by (metis (no_types, lifting) one_less_numeral_iff semiring_norm(77))
  ultimately have "k' = 1"
    by auto
  with k'(3) err e' have f': "fst ?r' = Inl (DirectoryError ''Cannot remove folder'' ''/d/2'' None)"
    by simp
  from s f f' show ?thesis
    by (simp add: prod_eq_iff)
qed

theorem deleteItems_single_error_counterexample:
  "\<not> deletion_succeeds example_fs (example_items ! 0)
       (fs_before example_fs example_items example_disk_without_1 0) \<and>
   \<not> deletion_succeeds example_fs (example_items ! 1)
       (fs_before example_fs example_items example_disk_without_1 1) \<and>
   fst (deleteItems example_fs (\<lambda>i. i) example_items (example_manager example_disk_without_1)) =
     Inl (DirectoryError ''Cannot remove file'' ''/d/1'' None)"
  by code_simp

section \<open>DirectoryManager: watchers\<close>

text \<open>
  C3. The component is mounted on \<open>/a\<close> and its path then changes to \<open>/b\<close>, \<open>/c\<close> and
  \<open>/d\<close>: four watchers are open and \<open>close\<close> has never been invoked. Likewise three
  calls of \<open>startWatching\<close> leave three watchers open and none closed, and
  \<open>stopWatching\<close> after two calls of \<open>startWatching\<close> leaves the first watcher open.
\<close>

theorem watchers_accumulate:
  "live_watchers
     (snd (componentDidUpdate_watch example_fs ''/c'' ''/d'' False False False
       (snd (componentDidUpdate_watch example_fs ''/b'' ''/c'' False False False
         (snd (componentDidUpdate_watch example_fs ''/a'' ''/b'' False False False
           (snd (componentDidMount_watch example_fs ''/a'' (example_manager []))))))))) =
     [''/a'', ''/b'', ''/c'', ''/d''] \<and>
   close_calls
     (snd (componentDidUpdate_watch example_fs ''/c'' ''/d'' False False False
       (snd (componentDidUpdate_watch example_fs ''/b'' ''/c'' False False False
         (snd (componentDidUpdate_watch example_fs ''/a'' ''/b'' False False False
           (snd (componentDidMount_watch example_fs ''/a'' (example_manager []))))))))) = [] \<and>
   live_watchers
     (snd (startWatching example_fs ''/c''
       (snd (startWatching example_fs ''/b''
         (snd (startWatching example_fs ''/a'' (example_manager []))))))) =
     [''/a'', ''/b'', ''/c''] \<and>
   close_calls
     (snd (startWatching example_fs ''/c''
       (snd (startWatching example_fs ''/b''
         (snd (startWatching example_fs ''/a'' (example_manager []))))))) = [] \<and>
   live_watchers
     (stopWatching
       (snd (startWatching example_fs ''/b''
         (snd (startWatching example_fs ''/a'' (example_manager [])))))) = [''/a'']"
  by code_simp

section \<open>DirectoryList: pasting\<close>

text \<open>
  C4 (as amended). \<open>pasteFromClipboard\<close> with no clipboard action set does not fail:
  it returns normally, makes no Directory Store call and leaves the component as it
  was.
\<close>

theorem paste_without_action:
  "pasteFromClipboard w None clipboardItems c = (Inr (), c)"
  by (simp add: pasteFromClipboard_def)

theorem paste_without_action_counterexample:
  "fst (pasteFromClipboard example_world None None example_list) = Inr () \<and>
   store_calls (snd (pasteFromClipboard example_world None None example_list)) = []"
  by code_simp

end
